theory Spec2Isabelle
  imports Main "HOL-Library.AList"
begin

section \<open>Shared vocabulary\<close>

text \<open>
  The sources are event-driven TypeScript classes built on the \<open>machina\<close> finite-state-machine
  library. Every class is modelled by a record of its private fields, and every handler by a
  function from the record to the record. What the handlers do to the outside world (calls into
  the \<open>amqp10\<close> client, into a link object, into a timer, into a user callback) is appended to
  an effect trace kept in the record, in the order the source performs it.

  A callback function is identified by a number, and a callback argument that was not passed
  is \<open>None\<close>. Calling a callback is an effect; the model assumes that a user callback and a
  listener of an emitted event return normally and do not call back into the object. A
  JavaScript exception leaves the fields as they were when it was thrown, so a handler returns
  an \<open>outcome\<close>: the record, and the exception when one was thrown. What the environment does
  later (a promise settles, a timer fires, a link object emits an event) is a function of its
  own, applied to the record the earlier calls left.
\<close>

type_synonym cbid = nat

datatype 'n jsval =
    JUndefined
  | JNull
  | JBool bool
  | JNum 'n
  | JStr string
  | JObject "(string \<times> 'n jsval) list"

datatype jserror =
    TypeError
  | ReferenceError string
  | ArgumentError string
  | TimeoutError string
  | UnauthorizedError "int jsval"
  | NotConnectedError string
  | Error string
  | AmqpError nat
  | OutOfFuel

datatype 's outcome = Normal 's | Throw jserror 's

fun andThen :: "'s outcome \<Rightarrow> ('s \<Rightarrow> 's outcome) \<Rightarrow> 's outcome" where
  "andThen (Normal s) f = f s"
| "andThen (Throw e s) f = Throw e s"

fun stateOf :: "'s outcome \<Rightarrow> 's" where
  "stateOf (Normal s) = s"
| "stateOf (Throw e s) = s"

fun thrownBy :: "'s outcome \<Rightarrow> jserror option" where
  "thrownBy (Normal s) = None"
| "thrownBy (Throw e s) = Some e"

text \<open>The four states shared by \<open>SenderLink\<close>, \<open>AmqpReceiverLinkFsm\<close> and
  \<open>ClaimsBasedSecurityAgent\<close>.\<close>

datatype link_state = Detached | Attaching | Attached | Detaching


section \<open>ClaimsBasedSecurityAgent (amqp\_cbs.ts)\<close>

record PutTokenOperation =
  putTokenCallback :: "cbid option"
  expirationTime :: int
  correlationId :: string

text \<open>A message emitted by the receiver link, as far as the handler reads it:
  \<open>msg.correlationId\<close>, \<open>msg.properties.getValue('status-code')\<close> and
  \<open>msg.properties.getValue('status-description')\<close>. The correlation id is \<open>None\<close> when it
  is not a string.\<close>

record cbs_message =
  msg_correlationId :: "string option"
  status_code :: "int jsval"
  status_description :: "int jsval"

text \<open>The put-token request built by the \<open>putToken\<close> handler.\<close>

record put_token_message =
  app_operation :: string
  app_type :: string
  app_name :: string
  pt_body :: string
  prop_to :: string
  prop_messageId :: string
  prop_reply_to :: string

text \<open>An input of the state machine. \<open>CbsPutToken audience token callback uuid now\<close> carries
  the two values the handler reads from its environment: \<open>uuid.v4()\<close> and
  \<open>Math.round(Date.now() / 1000)\<close>.\<close>

datatype cbs_input =
    CbsAttach "cbid option"
  | CbsDetach "cbid option"
  | CbsPutToken string string "cbid option" string int

datatype cbs_effect =
    CbsInvoke cbid "jserror option"
  | SenderLinkAttach nat
  | ReceiverLinkAttach nat
  | SenderLinkDetach
  | ReceiverLinkDetach
  | ReceiverLinkOnMessage
  | ReceiverLinkAccept cbs_message
  | SenderLinkSend put_token_message
  | SetTimeout nat
  | ClearTimeout

text \<open>
  \<open>attachRounds\<close> holds, for every run of \<open>attaching._onEnter\<close>, the two local flags
  \<open>senderAttached\<close> and \<open>receiverAttached\<close> of that run's closure. \<open>cbs_inputQueue\<close> is
  machina's queue of deferred inputs; the only call of \<open>deferUntilTransition\<close> in this class
  names the state \<open>detached\<close>, so every queued input waits for that state.

  \<open>_senderLink\<close> and \<open>_receiverLink\<close> are objects of the two link classes modelled in the
  next sections. A call of the agent into one of them is an effect, and of each link the
  record keeps the state of its machine, \<open>senderLinkState\<close> and \<open>receiverLinkState\<close>: the
  state decides what the call does, in particular whether \<open>detach()\<close> throws. The record
  follows a link through the calls of the agent, which owns both links, and through the
  callbacks by which the link reports the end of an attach; it does not follow a link that
  the peer detaches.
\<close>

record cbs =
  cbs_state :: link_state
  cbs_attachCallback :: "cbid option"
  outstandingPutTokens :: "PutTokenOperation list"
  attachRounds :: "(bool \<times> bool) list"
  senderLinkState :: link_state
  receiverLinkState :: link_state
  cbs_inputQueue :: "cbs_input list"
  cbs_effects :: "cbs_effect list"

definition numberOfSecondsToTimeout :: int where
  "numberOfSecondsToTimeout = 120"

definition putTokenTimeOutExaminationInterval :: nat where
  "putTokenTimeOutExaminationInterval = 10000"

definition cbs_init :: cbs where
  "cbs_init = \<lparr> cbs_state = Detached, cbs_attachCallback = None, outstandingPutTokens = [],
                attachRounds = [], senderLinkState = Detached, receiverLinkState = Detached,
                cbs_inputQueue = [], cbs_effects = [] \<rparr>"

definition cbs_emit :: "cbs_effect \<Rightarrow> cbs \<Rightarrow> cbs" where
  "cbs_emit e s = s\<lparr> cbs_effects := cbs_effects s @ [e] \<rparr>"

text \<open>Calling a callback value: \<open>undefined(...)\<close> is a \<open>TypeError\<close>.\<close>

definition cbs_call :: "cbid option \<Rightarrow> jserror option \<Rightarrow> cbs \<Rightarrow> cbs outcome" where
  "cbs_call cb err s =
     (case cb of None \<Rightarrow> Throw TypeError s | Some c \<Rightarrow> Normal (cbs_emit (CbsInvoke c err) s))"

subsection \<open>The timeout sweep\<close>

text \<open>The \<open>while\<close> loop of \<open>_removeExpiredPutTokens\<close>: it moves the head of the array to
  \<open>expiredPutTokens\<close> as long as the head's \<open>expirationTime\<close> is below \<open>currentTime\<close>, and
  breaks at the first head that is not.\<close>

fun sweep_loop :: "int \<Rightarrow> PutTokenOperation list \<Rightarrow> PutTokenOperation list
    \<Rightarrow> PutTokenOperation list \<times> PutTokenOperation list" where
  "sweep_loop currentTime expired [] = (expired, [])"
| "sweep_loop currentTime expired (p # ps) =
     (if expirationTime p < currentTime then sweep_loop currentTime (expired @ [p]) ps
      else (expired, p # ps))"

definition timeoutMessage :: string where
  "timeoutMessage = ''Put Token operation had no response within 120''"

text \<open>The \<open>forEach\<close> over the expired operations; an exception ends it.\<close>

fun forEach_expired :: "PutTokenOperation list \<Rightarrow> cbs \<Rightarrow> cbs outcome" where
  "forEach_expired [] s = Normal s"
| "forEach_expired (p # ps) s =
     andThen (cbs_call (putTokenCallback p) (Some (TimeoutError timeoutMessage)) s)
       (forEach_expired ps)"

definition removeExpiredPutTokens :: "int \<Rightarrow> cbs \<Rightarrow> cbs outcome" where
  "removeExpiredPutTokens currentTime s =
     (case sweep_loop currentTime [] (outstandingPutTokens s) of
        (expired, remaining) \<Rightarrow>
          andThen (forEach_expired expired (s\<lparr> outstandingPutTokens := remaining \<rparr>))
            (\<lambda>s'. Normal (if length (outstandingPutTokens s') > 0
                          then cbs_emit (SetTimeout putTokenTimeOutExaminationInterval) s'
                          else s')))"

subsection \<open>The receiver's message handler\<close>

text \<open>The \<open>for\<close> loop of the handler registered in \<open>attaching._onEnter\<close>: \<open>passed\<close> are the
  operations already passed over (indices below \<open>i\<close>). At the first operation with the
  message's correlation id it splices the operation out, calls its callback when it has one,
  and breaks.\<close>

fun message_loop :: "cbs_message \<Rightarrow> PutTokenOperation list \<Rightarrow> PutTokenOperation list
    \<Rightarrow> cbs \<Rightarrow> cbs" where
  "message_loop msg passed [] s = s"
| "message_loop msg passed (p # ps) s =
     (if msg_correlationId msg = Some (correlationId p) then
        (let s' = s\<lparr> outstandingPutTokens := passed @ ps \<rparr> in
         case putTokenCallback p of
           None \<Rightarrow> s'
         | Some c \<Rightarrow>
             cbs_emit (CbsInvoke c
               (if status_code msg \<noteq> JNum 200
                then Some (UnauthorizedError (status_description msg)) else None)) s')
      else message_loop msg (passed @ [p]) ps s)"

definition onReceiverMessage :: "cbs_message \<Rightarrow> cbs \<Rightarrow> cbs" where
  "onReceiverMessage msg s =
     cbs_emit (ReceiverLinkAccept msg) (message_loop msg [] (outstandingPutTokens s) s)"

subsection \<open>The state machine\<close>

text \<open>
  machina's \<open>transition(newState)\<close> does nothing when the machine is already in \<open>newState\<close>;
  otherwise it sets the state, runs the new state's \<open>_onEnter\<close>, and then replays the deferred
  inputs that wait for the new state. \<open>handle(input)\<close> looks the input up in the current
  state, falls back to the state's \<open>*\<close> handler, and does nothing when there is neither.

  The transition into \<open>detached\<close> replays deferred inputs, whose handlers may transition again:
  the functions carry a bound on this nesting, and report \<open>OutOfFuel\<close> when it is used up.
\<close>

definition cbs_transition_attached :: "cbs \<Rightarrow> cbs outcome" where
  "cbs_transition_attached s =
     (if cbs_state s = Attached then Normal s
      else (let s' = s\<lparr> cbs_state := Attached \<rparr> in
            case cbs_attachCallback s' of
              None \<Rightarrow> Normal s'
            | Some c \<Rightarrow> cbs_call (Some c) None (s'\<lparr> cbs_attachCallback := None \<rparr>)))"

text \<open>The \<open>else\<close> branches of the two callbacks the agent passes to its links in
  \<open>attaching._onEnter\<close>, for the run \<open>n\<close> of \<open>_onEnter\<close>: the link reports that it is
  attached. The receiver's branch registers the message handler on the receiver link.\<close>

definition senderAttachOk :: "nat \<Rightarrow> cbs \<Rightarrow> cbs outcome" where
  "senderAttachOk n s =
     (let s' = s\<lparr> attachRounds := (attachRounds s)[n := (True, snd (attachRounds s ! n))] \<rparr> in
      if snd (attachRounds s ! n) then cbs_transition_attached s' else Normal s')"

definition receiverAttachOk :: "nat \<Rightarrow> cbs \<Rightarrow> cbs outcome" where
  "receiverAttachOk n s =
     (let s' = cbs_emit ReceiverLinkOnMessage
                 (s\<lparr> attachRounds := (attachRounds s)[n := (fst (attachRounds s ! n), True)] \<rparr>) in
      if fst (attachRounds s ! n) then cbs_transition_attached s' else Normal s')"

text \<open>
  The calls \<open>_senderLink.attach(callback)\<close> and \<open>_receiverLink.attach(callback)\<close>. A link
  that is \<open>detached\<close> starts to attach and calls the callback later. A link that is \<open>attached\<close>
  calls the callback at once, inside the call. A sender link that is \<open>attaching\<close> has no
  handler for \<open>attach\<close>; a receiver link that is \<open>attaching\<close> and either link in
  \<open>detaching\<close> defer the input: the state of the link stays as it is.
\<close>

definition senderLink_attach :: "nat \<Rightarrow> cbs \<Rightarrow> cbs outcome" where
  "senderLink_attach n s =
     (let s' = cbs_emit (SenderLinkAttach n) s in
      case senderLinkState s of
        Detached \<Rightarrow> Normal (s'\<lparr> senderLinkState := Attaching \<rparr>)
      | Attached \<Rightarrow> senderAttachOk n s'
      | _ \<Rightarrow> Normal s')"

definition receiverLink_attach :: "nat \<Rightarrow> cbs \<Rightarrow> cbs outcome" where
  "receiverLink_attach n s =
     (let s' = cbs_emit (ReceiverLinkAttach n) s in
      case receiverLinkState s of
        Detached \<Rightarrow> Normal (s'\<lparr> receiverLinkState := Attaching \<rparr>)
      | Attached \<Rightarrow> receiverAttachOk n s'
      | _ \<Rightarrow> Normal s')"

definition cbs_transition_attaching :: "cbs \<Rightarrow> cbs outcome" where
  "cbs_transition_attaching s =
     (if cbs_state s = Attaching then Normal s
      else (let n = length (attachRounds s) in
            andThen (senderLink_attach n
                       (s\<lparr> cbs_state := Attaching, attachRounds := attachRounds s @ [(False, False)] \<rparr>))
              (receiverLink_attach n)))"

text \<open>
  The calls \<open>_senderLink.detach()\<close> and \<open>_receiverLink.detach()\<close> of \<open>detaching._onEnter\<close>.
  Both classes handle \<open>detach\<close> in \<open>attaching\<close> and in \<open>attached\<close> by a transition to
  \<open>detaching\<close>, a call of \<open>_detachLink\<close> and a transition to \<open>detached\<close>. \<open>_detachLink\<close>
  calls \<open>forceDetach\<close> on the link object, which a link that is still \<open>attaching\<close> does not
  have: a \<open>TypeError\<close> that leaves the link in \<open>detaching\<close>. In \<open>detached\<close> the sender link's
  handler is empty, and the receiver link's is \<open>(callback) => callback()\<close>, called without a
  callback: a \<open>TypeError\<close>. In \<open>detaching\<close> the input is deferred.
\<close>

definition senderLink_detach :: "cbs \<Rightarrow> cbs outcome" where
  "senderLink_detach s =
     (let s' = cbs_emit SenderLinkDetach s in
      case senderLinkState s of
        Detached \<Rightarrow> Normal s'
      | Attaching \<Rightarrow> Throw TypeError (s'\<lparr> senderLinkState := Detaching \<rparr>)
      | Attached \<Rightarrow> Normal (s'\<lparr> senderLinkState := Detached \<rparr>)
      | Detaching \<Rightarrow> Normal s')"

definition receiverLink_detach :: "cbs \<Rightarrow> cbs outcome" where
  "receiverLink_detach s =
     (let s' = cbs_emit ReceiverLinkDetach s in
      case receiverLinkState s of
        Detached \<Rightarrow> Throw TypeError s'
      | Attaching \<Rightarrow> Throw TypeError (s'\<lparr> receiverLinkState := Detaching \<rparr>)
      | Attached \<Rightarrow> Normal (s'\<lparr> receiverLinkState := Detached \<rparr>)
      | Detaching \<Rightarrow> Normal s')"

text \<open>The call \<open>_senderLink.send(message, callback)\<close>: a sender link that is \<open>detached\<close>
  queues the message and starts to attach.\<close>

definition senderLink_send :: "put_token_message \<Rightarrow> cbs \<Rightarrow> cbs" where
  "senderLink_send amqpMessage s =
     (let s' = cbs_emit (SenderLinkSend amqpMessage) s in
      if senderLinkState s = Detached then s'\<lparr> senderLinkState := Attaching \<rparr> else s')"

definition buildPutToken :: "string \<Rightarrow> string \<Rightarrow> string \<Rightarrow> put_token_message" where
  "buildPutToken audience token uuid =
     \<lparr> app_operation = ''put-token'', app_type = ''servicebus.windows.net:sastoken'',
       app_name = audience, pt_body = token, prop_to = ''$cbs'', prop_messageId = uuid,
       prop_reply_to = ''cbs'' \<rparr>"

definition attached_putToken :: "string \<Rightarrow> string \<Rightarrow> cbid option \<Rightarrow> string \<Rightarrow> int \<Rightarrow> cbs \<Rightarrow> cbs" where
  "attached_putToken audience token cb uuid now s =
     (let amqpMessage = buildPutToken audience token uuid;
          outstandingPutToken = \<lparr> putTokenCallback = cb,
            expirationTime = now + numberOfSecondsToTimeout,
            correlationId = prop_messageId amqpMessage \<rparr>;
          s1 = s\<lparr> outstandingPutTokens := outstandingPutTokens s @ [outstandingPutToken] \<rparr>;
          s2 = (if length (outstandingPutTokens s1) = 1
                then cbs_emit (SetTimeout putTokenTimeOutExaminationInterval) s1 else s1)
      in senderLink_send amqpMessage s2)"

fun cbs_handle :: "nat \<Rightarrow> cbs_input \<Rightarrow> cbs \<Rightarrow> cbs outcome"
  and cbs_replay :: "nat \<Rightarrow> cbs_input list \<Rightarrow> cbs \<Rightarrow> cbs outcome"
  and cbs_transition_detached :: "nat \<Rightarrow> cbs \<Rightarrow> cbs outcome"
  and cbs_transition_detaching :: "nat \<Rightarrow> cbs \<Rightarrow> cbs outcome" where
  "cbs_handle fuel inp s =
     (case cbs_state s of
        Detached \<Rightarrow>
          (case inp of
             CbsAttach cb \<Rightarrow> cbs_transition_attaching (s\<lparr> cbs_attachCallback := cb \<rparr>)
           | _ \<Rightarrow> Normal s)
      | Attaching \<Rightarrow> Normal s
      | Attached \<Rightarrow>
          (case inp of
             CbsAttach cb \<Rightarrow> cbs_call cb None s
           | CbsDetach cb \<Rightarrow> cbs_transition_detaching fuel s
           | CbsPutToken audience token cb uuid now \<Rightarrow>
               Normal (attached_putToken audience token cb uuid now s))
      | Detaching \<Rightarrow> Normal (s\<lparr> cbs_inputQueue := cbs_inputQueue s @ [inp] \<rparr>))"
| "cbs_replay fuel [] s = Normal s"
| "cbs_replay fuel (inp # inps) s = andThen (cbs_handle fuel inp s) (cbs_replay fuel inps)"
| "cbs_transition_detached 0 s = (if cbs_state s = Detached then Normal s else Throw OutOfFuel s)"
| "cbs_transition_detached (Suc fuel) s =
     (if cbs_state s = Detached then Normal s
      else cbs_replay fuel (cbs_inputQueue s) (s\<lparr> cbs_state := Detached, cbs_inputQueue := [] \<rparr>))"
| "cbs_transition_detaching fuel s =
     (if cbs_state s = Detaching then Normal s
      else andThen (andThen (senderLink_detach (s\<lparr> cbs_state := Detaching \<rparr>)) receiverLink_detach)
             (cbs_transition_detached fuel))"

text \<open>The public methods. \<open>detach\<close> is written as the source has it: it hands the input
  \<open>attach\<close> to the state machine.\<close>

definition cbs_attach :: "nat \<Rightarrow> cbid option \<Rightarrow> cbs \<Rightarrow> cbs outcome" where
  "cbs_attach fuel callback s = cbs_handle fuel (CbsAttach callback) s"

definition cbs_detach :: "nat \<Rightarrow> cbid option \<Rightarrow> cbs \<Rightarrow> cbs outcome" where
  "cbs_detach fuel callback s = cbs_handle fuel (CbsAttach callback) s"

definition cbs_putToken :: "nat \<Rightarrow> string \<Rightarrow> string \<Rightarrow> cbid option \<Rightarrow> string \<Rightarrow> int \<Rightarrow> cbs \<Rightarrow> cbs outcome" where
  "cbs_putToken fuel audience token callback uuid now s =
     (if audience = [] then Throw (ReferenceError (''audience cannot be '' @ [CHR 0x27, CHR 0x27])) s
      else if token = [] then Throw (ReferenceError (''token cannot be '' @ [CHR 0x27, CHR 0x27])) s
      else cbs_handle fuel (CbsPutToken audience token callback uuid now) s)"

text \<open>
  The callbacks the agent passes to its two links in \<open>attaching._onEnter\<close>, called by a link
  whose attach has ended; \<open>n\<close> is the run of \<open>_onEnter\<close> the callback belongs to (a callback
  of a run that never started does not exist: the functions leave the record alone there).
  Both link classes transition before they call the callback, to \<open>attached\<close> when they report
  no error and to \<open>detached\<close> when they report one.
\<close>

definition senderAttachDone :: "nat \<Rightarrow> nat \<Rightarrow> jserror option \<Rightarrow> cbs \<Rightarrow> cbs outcome" where
  "senderAttachDone fuel n err s =
     (if length (attachRounds s) \<le> n then Normal s
      else case err of
        Some e \<Rightarrow>
          andThen (cbs_transition_detaching fuel (s\<lparr> senderLinkState := Detached \<rparr>))
            (\<lambda>s'. cbs_call (cbs_attachCallback s') (Some e) (s'\<lparr> cbs_attachCallback := None \<rparr>))
      | None \<Rightarrow> senderAttachOk n (s\<lparr> senderLinkState := Attached \<rparr>))"

definition receiverAttachDone :: "nat \<Rightarrow> nat \<Rightarrow> jserror option \<Rightarrow> cbs \<Rightarrow> cbs outcome" where
  "receiverAttachDone fuel n err s =
     (if length (attachRounds s) \<le> n then Normal s
      else case err of
        Some e \<Rightarrow>
          (let cb = cbs_attachCallback s in
           andThen (cbs_transition_detaching fuel
                      (s\<lparr> receiverLinkState := Detached, cbs_attachCallback := None \<rparr>))
             (cbs_call cb (Some e)))
      | None \<Rightarrow> receiverAttachOk n (s\<lparr> receiverLinkState := Attached \<rparr>))"


text \<open>The callback the \<open>putToken\<close> handler passes to \<open>SenderLink.send\<close>: \<open>messageId\<close> is the
  id of the request it was created for. It scans the array from its end.\<close>

fun sendDone_loop :: "string \<Rightarrow> jserror option \<Rightarrow> PutTokenOperation list \<Rightarrow> PutTokenOperation list
    \<Rightarrow> cbs \<Rightarrow> cbs outcome" where
  "sendDone_loop messageId err [] after s = Normal s"
| "sendDone_loop messageId err (p # ps) after s =
     (if correlationId p = messageId then
        (let s1 = s\<lparr> outstandingPutTokens := rev ps @ after \<rparr>;
             s2 = (if length (outstandingPutTokens s1) = 0 then cbs_emit ClearTimeout s1 else s1)
         in cbs_call (putTokenCallback p) err s2)
      else sendDone_loop messageId err ps (p # after) s)"

definition sendDone :: "string \<Rightarrow> jserror option \<Rightarrow> cbs \<Rightarrow> cbs outcome" where
  "sendDone messageId err s = sendDone_loop messageId err (rev (outstandingPutTokens s)) [] s"


section \<open>SenderLink (sender\_link.ts)\<close>

text \<open>
  A message and a link object of the \<open>amqp10\<close> library are identified by numbers.
  \<open>sl_inputQueue\<close> is machina's queue of deferred inputs (the only
  \<open>deferUntilTransition\<close> of this class names \<open>detached\<close>), and \<open>sl_inExitHandler\<close>
  machina's flag of that name: while it is set, \<open>handle\<close> and \<open>transition\<close> do nothing.

  Three fields record what the environment still owes the object: the number of
  \<open>createSender\<close> promises not yet settled, the callbacks of the \<open>send\<close> promises not yet
  settled, and the closures handed to \<open>process.nextTick\<close> that have not run yet.
  \<open>sl_detachedListeners\<close> are the link objects on which \<open>_detachHandler\<close> is registered.
\<close>

datatype sl_input = SlAttach "cbid option" | SlDetach | SlSend nat "cbid option"

datatype sl_effect =
    SlInvoke cbid "jserror option"
  | ClientOnErrorReceived
  | ClientRemoveErrorListener
  | CreateSender
  | LinkOnDetached nat
  | LinkOnErrorReceived nat
  | LinkRemoveDetachedListener nat
  | LinkSend nat nat
  | LinkForceDetach nat
  | ProcessNextTick cbid "jserror option"
  | EmitError jserror

record sender_link =
  sl_state :: link_state
  sl_linkObject :: "nat option"
  sl_messageQueue :: "(nat \<times> cbid option) list"
  sl_attachError :: "jserror option"
  sl_attachCallback :: "cbid option"
  sl_inputQueue :: "sl_input list"
  sl_inExitHandler :: bool
  sl_detachedListeners :: "nat list"
  sl_pendingCreate :: nat
  sl_pendingSends :: "cbid option list"
  sl_ticks :: "(cbid \<times> jserror option) list"
  sl_effects :: "sl_effect list"

definition sl_init :: sender_link where
  "sl_init = \<lparr> sl_state = Detached, sl_linkObject = None, sl_messageQueue = [],
               sl_attachError = None, sl_attachCallback = None, sl_inputQueue = [],
               sl_inExitHandler = False, sl_detachedListeners = [], sl_pendingCreate = 0,
               sl_pendingSends = [], sl_ticks = [], sl_effects = [] \<rparr>"

definition sl_emit :: "sl_effect \<Rightarrow> sender_link \<Rightarrow> sender_link" where
  "sl_emit e s = s\<lparr> sl_effects := sl_effects s @ [e] \<rparr>"

definition sl_call :: "cbid option \<Rightarrow> jserror option \<Rightarrow> sender_link \<Rightarrow> sender_link outcome" where
  "sl_call cb err s =
     (case cb of None \<Rightarrow> Throw TypeError s | Some c \<Rightarrow> Normal (sl_emit (SlInvoke c err) s))"

definition pushToQueue :: "nat \<Rightarrow> cbid option \<Rightarrow> sender_link \<Rightarrow> sender_link" where
  "pushToQueue message callback s = s\<lparr> sl_messageQueue := sl_messageQueue s @ [(message, callback)] \<rparr>"

text \<open>\<open>detached._onEnter\<close>: the loop shifts a request off the queue and then calls its
  callback with \<open>messageCallbackError\<close>.\<close>

fun failQueue_loop :: "jserror \<Rightarrow> (nat \<times> cbid option) list \<Rightarrow> sender_link \<Rightarrow> sender_link outcome" where
  "failQueue_loop e [] s = Normal s"
| "failQueue_loop e (toSend # rest) s =
     andThen (sl_call (snd toSend) (Some e) (s\<lparr> sl_messageQueue := rest \<rparr>)) (failQueue_loop e rest)"

definition detached_onEnter :: "sender_link \<Rightarrow> sender_link outcome" where
  "detached_onEnter s =
     (if length (sl_messageQueue s) > 0 then
        (let messageCallbackError =
               (case sl_attachError s of Some e \<Rightarrow> e | None \<Rightarrow> Error ''Link Detached'')
         in failQueue_loop messageCallbackError (sl_messageQueue s) s)
      else Normal s)"

text \<open>\<open>attaching._onEnter\<close> calls \<open>_attachLink\<close>, which registers the client error handler and
  calls \<open>createSender\<close>; the promise is settled later by the environment.\<close>

definition attaching_onEnter :: "sender_link \<Rightarrow> sender_link" where
  "attaching_onEnter s =
     sl_emit CreateSender (sl_emit ClientOnErrorReceived
       (s\<lparr> sl_pendingCreate := Suc (sl_pendingCreate s) \<rparr>))"

text \<open>\<open>attached.send\<close>: \<open>this._linkObject.send(message)\<close> and a promise that is settled later.\<close>

definition attached_send :: "nat \<Rightarrow> cbid option \<Rightarrow> sender_link \<Rightarrow> sender_link outcome" where
  "attached_send message callback s =
     (case sl_linkObject s of
        None \<Rightarrow> Throw TypeError s
      | Some l \<Rightarrow> Normal (sl_emit (LinkSend l message)
                   (s\<lparr> sl_pendingSends := sl_pendingSends s @ [callback] \<rparr>)))"

text \<open>\<open>attached._onEnter\<close>: every queued request is shifted off and handed to
  \<open>handle('send', ...)\<close>; the machine is in \<open>attached\<close> by then, so this is \<open>attached.send\<close>.\<close>

fun drainQueue_loop :: "(nat \<times> cbid option) list \<Rightarrow> sender_link \<Rightarrow> sender_link outcome" where
  "drainQueue_loop [] s = Normal s"
| "drainQueue_loop (toSend # rest) s =
     andThen (attached_send (fst toSend) (snd toSend) (s\<lparr> sl_messageQueue := rest \<rparr>))
       (drainQueue_loop rest)"

definition attached_onEnter :: "sender_link \<Rightarrow> sender_link outcome" where
  "attached_onEnter s = drainQueue_loop (sl_messageQueue s) s"

text \<open>The \<open>_onExit\<close> part of a transition: only \<open>attached\<close> has one. machina sets
  \<open>inExitHandler\<close> around it, so an exception inside leaves the flag set.\<close>

definition sl_onExit :: "sender_link \<Rightarrow> sender_link outcome" where
  "sl_onExit s =
     (if sl_state s = Attached then
        (case sl_linkObject s of
           None \<Rightarrow> Throw TypeError (s\<lparr> sl_inExitHandler := True \<rparr>)
         | Some l \<Rightarrow> Normal (sl_emit (LinkRemoveDetachedListener l)
                      (s\<lparr> sl_detachedListeners := removeAll l (sl_detachedListeners s) \<rparr>)))
      else Normal s)"

definition sl_transition_attaching :: "sender_link \<Rightarrow> sender_link outcome" where
  "sl_transition_attaching s =
     (if sl_inExitHandler s \<or> sl_state s = Attaching then Normal s
      else andThen (sl_onExit s) (\<lambda>s'. Normal (attaching_onEnter (s'\<lparr> sl_state := Attaching \<rparr>))))"

definition sl_transition_attached :: "sender_link \<Rightarrow> sender_link outcome" where
  "sl_transition_attached s =
     (if sl_inExitHandler s \<or> sl_state s = Attached then Normal s
      else andThen (sl_onExit s) (\<lambda>s'. attached_onEnter (s'\<lparr> sl_state := Attached \<rparr>)))"

definition sl_transition_detaching :: "sender_link \<Rightarrow> sender_link outcome" where
  "sl_transition_detaching s =
     (if sl_inExitHandler s \<or> sl_state s = Detaching then Normal s
      else andThen (sl_onExit s) (\<lambda>s'. Normal (s'\<lparr> sl_state := Detaching \<rparr>)))"

definition detachLink :: "sender_link \<Rightarrow> sender_link outcome" where
  "detachLink s =
     (case sl_linkObject s of
        None \<Rightarrow> Throw TypeError s
      | Some l \<Rightarrow> Normal (sl_emit (LinkForceDetach l) s\<lparr> sl_linkObject := None \<rparr>))"

text \<open>
  \<open>sl_handle\<close> is machina's \<open>handle\<close> with the handlers of the four states, \<open>sl_replay\<close> its
  \<open>processQueue\<close>, and \<open>sl_transition_detached\<close> the transition into \<open>detached\<close>, the one
  that finds deferred inputs to replay. \<open>detached.send\<close> calls \<open>handle('attach')\<close> with no
  argument while the machine is in \<open>detached\<close>: that is \<open>detached.attach(undefined)\<close>.
\<close>

fun sl_handle :: "nat \<Rightarrow> sl_input \<Rightarrow> sender_link \<Rightarrow> sender_link outcome"
  and sl_replay :: "nat \<Rightarrow> sl_input list \<Rightarrow> sender_link \<Rightarrow> sender_link outcome"
  and sl_transition_detached :: "nat \<Rightarrow> sender_link \<Rightarrow> sender_link outcome" where
  "sl_handle fuel inp s =
     (if sl_inExitHandler s then Normal s
      else case sl_state s of
        Detached \<Rightarrow>
          (case inp of
             SlAttach callback \<Rightarrow> sl_transition_attaching (s\<lparr> sl_attachCallback := callback \<rparr>)
           | SlDetach \<Rightarrow> Normal s
           | SlSend message callback \<Rightarrow>
               sl_transition_attaching ((pushToQueue message callback s)\<lparr> sl_attachCallback := None \<rparr>))
      | Attaching \<Rightarrow>
          (case inp of
             SlAttach callback \<Rightarrow> Normal s
           | SlDetach \<Rightarrow>
               andThen (andThen (sl_transition_detaching s) detachLink) (sl_transition_detached fuel)
           | SlSend message callback \<Rightarrow> Normal (pushToQueue message callback s))
      | Attached \<Rightarrow>
          (case inp of
             SlAttach callback \<Rightarrow> sl_call callback None s
           | SlDetach \<Rightarrow>
               andThen (andThen (sl_transition_detaching s) detachLink) (sl_transition_detached fuel)
           | SlSend message callback \<Rightarrow> attached_send message callback s)
      | Detaching \<Rightarrow> Normal (s\<lparr> sl_inputQueue := sl_inputQueue s @ [inp] \<rparr>))"
| "sl_replay fuel [] s = Normal s"
| "sl_replay fuel (inp # inps) s = andThen (sl_handle fuel inp s) (sl_replay fuel inps)"
| "sl_transition_detached 0 s =
     (if sl_inExitHandler s \<or> sl_state s = Detached then Normal s else Throw OutOfFuel s)"
| "sl_transition_detached (Suc fuel) s =
     (if sl_inExitHandler s \<or> sl_state s = Detached then Normal s
      else andThen (sl_onExit s) (\<lambda>s1.
           andThen (detached_onEnter (s1\<lparr> sl_state := Detached \<rparr>)) (\<lambda>s2.
             sl_replay fuel (sl_inputQueue s2) (s2\<lparr> sl_inputQueue := [] \<rparr>))))"

text \<open>The public methods.\<close>

definition sl_detach :: "nat \<Rightarrow> sender_link \<Rightarrow> sender_link outcome" where
  "sl_detach fuel s = sl_handle fuel SlDetach s"

definition sl_attach :: "nat \<Rightarrow> cbid option \<Rightarrow> sender_link \<Rightarrow> sender_link outcome" where
  "sl_attach fuel callback s = sl_handle fuel (SlAttach callback) s"

definition sl_send :: "nat \<Rightarrow> nat \<Rightarrow> cbid option \<Rightarrow> sender_link \<Rightarrow> sender_link outcome" where
  "sl_send fuel message callback s = sl_handle fuel (SlSend message callback) s"

text \<open>The callback \<open>attaching._onEnter\<close> passes to \<open>_attachLink\<close>.\<close>

definition attachLinkDone :: "nat \<Rightarrow> jserror option \<Rightarrow> sender_link \<Rightarrow> sender_link outcome" where
  "attachLinkDone fuel err s =
     andThen
       (case err of
          Some e \<Rightarrow> sl_transition_detached fuel (s\<lparr> sl_attachError := err \<rparr>)
        | None \<Rightarrow> sl_transition_attached (s\<lparr> sl_attachError := err \<rparr>))
       (\<lambda>s'. case sl_attachCallback s' of
                None \<Rightarrow> Normal s'
              | Some cb \<Rightarrow> sl_call (Some cb) err (s'\<lparr> sl_attachCallback := None \<rparr>))"

text \<open>
  What the environment does to the object. The \<open>createSender\<close> promise is fulfilled with a
  link object (\<open>connectionError\<close> is the error the client emitted meanwhile, if any) or
  rejected; the \<open>then\<close> handler is followed by a \<open>catch\<close>, so an exception thrown while the
  \<open>then\<close> handler runs calls the callback a second time, with that exception. The link
  object emits \<open>detached\<close> or \<open>errorReceived\<close>; the promise of a \<open>send\<close> is settled (\<open>i\<close> is its place among the
  unsettled ones); the next closure given to \<open>process.nextTick\<close> runs.
\<close>

definition createSenderResolved :: "nat \<Rightarrow> nat \<Rightarrow> jserror option \<Rightarrow> sender_link \<Rightarrow> sender_link outcome" where
  "createSenderResolved fuel amqp10link connectionError s =
     (if sl_pendingCreate s = 0 then Normal s
      else
        (let s0 = s\<lparr> sl_pendingCreate := sl_pendingCreate s - 1 \<rparr>;
             s1 = (if connectionError = None then
                     sl_emit (LinkOnErrorReceived amqp10link) (sl_emit (LinkOnDetached amqp10link)
                       (s0\<lparr> sl_linkObject := Some amqp10link,
                            sl_detachedListeners := sl_detachedListeners s0 @ [amqp10link] \<rparr>))
                   else s0)
         in case attachLinkDone fuel connectionError (sl_emit ClientRemoveErrorListener s1) of
              Normal s' \<Rightarrow> Normal s'
            | Throw e s' \<Rightarrow> attachLinkDone fuel (Some e) s'))"

definition createSenderRejected :: "nat \<Rightarrow> jserror \<Rightarrow> sender_link \<Rightarrow> sender_link outcome" where
  "createSenderRejected fuel err s =
     (if sl_pendingCreate s = 0 then Normal s
      else attachLinkDone fuel (Some err) (s\<lparr> sl_pendingCreate := sl_pendingCreate s - 1 \<rparr>))"

definition detachHandler :: "nat \<Rightarrow> sender_link \<Rightarrow> sender_link outcome" where
  "detachHandler fuel s =
     andThen (sl_transition_detaching s)
       (\<lambda>s'. sl_transition_detached fuel (s'\<lparr> sl_linkObject := None \<rparr>))"

definition linkDetached :: "nat \<Rightarrow> nat \<Rightarrow> sender_link \<Rightarrow> sender_link outcome" where
  "linkDetached fuel l s =
     (if l \<in> set (sl_detachedListeners s) then detachHandler fuel s else Normal s)"

text \<open>\<open>_errorHandler\<close>, registered on the link object for \<open>errorReceived\<close>.\<close>

definition errorHandler :: "jserror \<Rightarrow> sender_link \<Rightarrow> sender_link" where
  "errorHandler err s = sl_emit (EmitError err) s"

definition safeCallback :: "cbid option \<Rightarrow> jserror option \<Rightarrow> sender_link \<Rightarrow> sender_link" where
  "safeCallback callback err s =
     (case callback of
        None \<Rightarrow> s
      | Some cb \<Rightarrow> sl_emit (ProcessNextTick cb err) (s\<lparr> sl_ticks := sl_ticks s @ [(cb, err)] \<rparr>))"

definition sendSettled :: "nat \<Rightarrow> jserror option \<Rightarrow> sender_link \<Rightarrow> sender_link" where
  "sendSettled i err s =
     (if i < length (sl_pendingSends s)
      then safeCallback (sl_pendingSends s ! i) err
             (s\<lparr> sl_pendingSends := take i (sl_pendingSends s) @ drop (Suc i) (sl_pendingSends s) \<rparr>)
      else s)"

definition runTick :: "sender_link \<Rightarrow> sender_link" where
  "runTick s =
     (case sl_ticks s of
        [] \<Rightarrow> s
      | (cb, err) # rest \<Rightarrow> sl_emit (SlInvoke cb err) (s\<lparr> sl_ticks := rest \<rparr>))"

datatype sl_event =
    CallAttach "cbid option"
  | CallDetach
  | CallSend nat "cbid option"
  | CreateSenderResolved nat "jserror option"
  | CreateSenderRejected jserror
  | LinkDetached nat
  | LinkErrorReceived jserror
  | SendSettled nat "jserror option"
  | RunTick

fun sl_step :: "nat \<Rightarrow> sl_event \<Rightarrow> sender_link \<Rightarrow> sender_link outcome" where
  "sl_step fuel (CallAttach callback) s = sl_attach fuel callback s"
| "sl_step fuel CallDetach s = sl_detach fuel s"
| "sl_step fuel (CallSend message callback) s = sl_send fuel message callback s"
| "sl_step fuel (CreateSenderResolved l connectionError) s = createSenderResolved fuel l connectionError s"
| "sl_step fuel (CreateSenderRejected err) s = createSenderRejected fuel err s"
| "sl_step fuel (LinkDetached l) s = linkDetached fuel l s"
| "sl_step fuel (LinkErrorReceived err) s = Normal (errorHandler err s)"
| "sl_step fuel (SendSettled i err) s = Normal (sendSettled i err s)"
| "sl_step fuel RunTick s = Normal (runTick s)"

text \<open>A run of events. An exception goes to whoever caused the event; the object keeps the
  fields it had when the exception was thrown, and the run collects the exceptions.\<close>

fun sl_run :: "nat \<Rightarrow> sl_event list \<Rightarrow> sender_link \<times> jserror list \<Rightarrow> sender_link \<times> jserror list" where
  "sl_run fuel [] r = r"
| "sl_run fuel (ev # evs) (s, thrown) =
     (case sl_step fuel ev s of
        Normal s' \<Rightarrow> sl_run fuel evs (s', thrown)
      | Throw e s' \<Rightarrow> sl_run fuel evs (s', thrown @ [e]))"


section \<open>AmqpReceiverLinkFsm (amqp\_receiver\_link\_fsm.ts)\<close>

text \<open>
  The callback of an \<open>attach\<close> is a user's function, or the function the object itself passes
  when its first \<open>message\<close> listener is added, which emits \<open>error\<close> when it gets one.
  A deferred input waits for the state it was deferred to: \<open>attached\<close> or \<open>detached\<close>.
  \<open>_attachLink\<close> reports through \<open>_safeCallback\<close>, that is through \<open>process.nextTick\<close>:
  \<open>rl_ticks\<close> are the reports scheduled and not yet run.
\<close>

datatype rl_callback = UserCallback cbid | LazyAttachCallback

datatype rl_input =
    RlAttach "rl_callback option"
  | RlDetach
  | RlAccept nat "cbid option"
  | RlReject nat "cbid option"
  | RlAbandon nat "cbid option"

datatype rl_result = MessageCompleted | MessageRejected | MessageAbandoned

datatype rl_effect =
    RlInvoke cbid "jserror option" "rl_result option"
  | RlEmitError jserror
  | RlClientOnErrorReceived
  | RlClientRemoveErrorListener
  | CreateReceiver
  | RlLinkOn nat
  | RlLinkRemoveListeners nat
  | RlLinkForceDetach nat
  | RlLinkAccept nat nat
  | RlLinkReject nat nat
  | RlLinkAbandon nat nat
  | RlNextTick "jserror option"

record receiver_link =
  rl_state :: link_state
  rl_linkObject :: "nat option"
  rl_attachCallback :: "rl_callback option"
  rl_inputQueue :: "(link_state \<times> rl_input) list"
  rl_inExitHandler :: bool
  rl_pendingCreate :: nat
  rl_ticks :: "jserror option list"
  rl_effects :: "rl_effect list"

definition rl_init :: receiver_link where
  "rl_init = \<lparr> rl_state = Detached, rl_linkObject = None, rl_attachCallback = None,
               rl_inputQueue = [], rl_inExitHandler = False, rl_pendingCreate = 0,
               rl_ticks = [], rl_effects = [] \<rparr>"

definition rl_emit :: "rl_effect \<Rightarrow> receiver_link \<Rightarrow> receiver_link" where
  "rl_emit e s = s\<lparr> rl_effects := rl_effects s @ [e] \<rparr>"

definition rl_call :: "rl_callback option \<Rightarrow> jserror option \<Rightarrow> receiver_link \<Rightarrow> receiver_link outcome" where
  "rl_call cb err s =
     (case cb of
        None \<Rightarrow> Throw TypeError s
      | Some (UserCallback c) \<Rightarrow> Normal (rl_emit (RlInvoke c err None) s)
      | Some LazyAttachCallback \<Rightarrow>
          Normal (case err of None \<Rightarrow> s | Some e \<Rightarrow> rl_emit (RlEmitError e) s))"

definition rl_defer :: "link_state \<Rightarrow> rl_input \<Rightarrow> receiver_link \<Rightarrow> receiver_link" where
  "rl_defer untilState inp s = s\<lparr> rl_inputQueue := rl_inputQueue s @ [(untilState, inp)] \<rparr>"

definition rl_onExit :: "receiver_link \<Rightarrow> receiver_link outcome" where
  "rl_onExit s =
     (if rl_state s = Attached then
        (case rl_linkObject s of
           None \<Rightarrow> Throw TypeError (s\<lparr> rl_inExitHandler := True \<rparr>)
         | Some l \<Rightarrow> Normal (rl_emit (RlLinkRemoveListeners l) s))
      else Normal s)"

definition rl_onEnter :: "link_state \<Rightarrow> receiver_link \<Rightarrow> receiver_link outcome" where
  "rl_onEnter newState s =
     (case newState of
        Attaching \<Rightarrow>
          Normal (rl_emit CreateReceiver (rl_emit RlClientOnErrorReceived
            (s\<lparr> rl_pendingCreate := Suc (rl_pendingCreate s) \<rparr>)))
      | Attached \<Rightarrow>
          (case rl_linkObject s of
             None \<Rightarrow> Throw TypeError s
           | Some l \<Rightarrow> Normal (rl_emit (RlLinkOn l) s))
      | _ \<Rightarrow> Normal s)"

definition rl_detachLink :: "receiver_link \<Rightarrow> receiver_link outcome" where
  "rl_detachLink s =
     (case rl_linkObject s of
        None \<Rightarrow> Throw TypeError s
      | Some l \<Rightarrow> Normal (rl_emit (RlLinkForceDetach l) s\<lparr> rl_linkObject := None \<rparr>))"

text \<open>A disposition in \<open>attached\<close>: the call into the link object, then the optional callback.\<close>

definition rl_settle :: "(nat \<Rightarrow> nat \<Rightarrow> rl_effect) \<Rightarrow> rl_result \<Rightarrow> nat \<Rightarrow> cbid option
    \<Rightarrow> receiver_link \<Rightarrow> receiver_link outcome" where
  "rl_settle disposition result message callback s =
     (case rl_linkObject s of
        None \<Rightarrow> Throw TypeError s
      | Some l \<Rightarrow>
          (let s' = rl_emit (disposition l message) s in
           Normal (case callback of
                     None \<Rightarrow> s'
                   | Some c \<Rightarrow> rl_emit (RlInvoke c None (Some result)) s')))"

text \<open>machina's \<open>handle\<close>, \<open>processQueue\<close> and \<open>transition\<close> for this class. A transition
  replays the inputs deferred to the state it enters; their handlers may transition again, and
  the bound \<open>fuel\<close> counts this nesting.\<close>

fun rl_handle :: "nat \<Rightarrow> rl_input \<Rightarrow> receiver_link \<Rightarrow> receiver_link outcome"
  and rl_replay :: "nat \<Rightarrow> (link_state \<times> rl_input) list \<Rightarrow> receiver_link \<Rightarrow> receiver_link outcome"
  and rl_transition :: "nat \<Rightarrow> link_state \<Rightarrow> receiver_link \<Rightarrow> receiver_link outcome" where
  "rl_handle fuel inp s =
     (if rl_inExitHandler s then Normal s
      else case rl_state s of
        Detached \<Rightarrow>
          (case inp of
             RlAttach callback \<Rightarrow> rl_transition fuel Attaching (s\<lparr> rl_attachCallback := callback \<rparr>)
           | RlDetach \<Rightarrow> Throw TypeError s
           | _ \<Rightarrow> Normal (rl_defer Attached inp s))
      | Attaching \<Rightarrow>
          (case inp of
             RlDetach \<Rightarrow>
               andThen (andThen (rl_transition fuel Detaching s) rl_detachLink)
                 (rl_transition fuel Detached)
           | _ \<Rightarrow> Normal (rl_defer Attached inp s))
      | Attached \<Rightarrow>
          (case inp of
             RlAttach callback \<Rightarrow> rl_call callback None s
           | RlDetach \<Rightarrow>
               andThen (andThen (rl_transition fuel Detaching s) rl_detachLink)
                 (rl_transition fuel Detached)
           | RlAccept message callback \<Rightarrow> rl_settle RlLinkAccept MessageCompleted message callback s
           | RlReject message callback \<Rightarrow> rl_settle RlLinkReject MessageRejected message callback s
           | RlAbandon message callback \<Rightarrow> rl_settle RlLinkAbandon MessageAbandoned message callback s)
      | Detaching \<Rightarrow> Normal (rl_defer Detached inp s))"
| "rl_replay fuel [] s = Normal s"
| "rl_replay fuel (item # items) s = andThen (rl_handle fuel (snd item) s) (rl_replay fuel items)"
| "rl_transition 0 newState s =
     (if rl_inExitHandler s \<or> rl_state s = newState then Normal s else Throw OutOfFuel s)"
| "rl_transition (Suc fuel) newState s =
     (if rl_inExitHandler s \<or> rl_state s = newState then Normal s
      else andThen (rl_onExit s) (\<lambda>s1.
           andThen (rl_onEnter newState (s1\<lparr> rl_state := newState \<rparr>)) (\<lambda>s2.
             rl_replay fuel (filter (\<lambda>item. fst item = newState) (rl_inputQueue s2))
               (s2\<lparr> rl_inputQueue := filter (\<lambda>item. fst item \<noteq> newState) (rl_inputQueue s2) \<rparr>))))"

definition rl_detach :: "nat \<Rightarrow> receiver_link \<Rightarrow> receiver_link outcome" where
  "rl_detach fuel s = rl_handle fuel RlDetach s"

definition rl_attach :: "nat \<Rightarrow> cbid option \<Rightarrow> receiver_link \<Rightarrow> receiver_link outcome" where
  "rl_attach fuel callback s = rl_handle fuel (RlAttach (map_option UserCallback callback)) s"

definition rl_accept :: "nat \<Rightarrow> nat \<Rightarrow> cbid option \<Rightarrow> receiver_link \<Rightarrow> receiver_link outcome" where
  "rl_accept fuel message callback s = rl_handle fuel (RlAccept message callback) s"

definition rl_reject :: "nat \<Rightarrow> nat \<Rightarrow> cbid option \<Rightarrow> receiver_link \<Rightarrow> receiver_link outcome" where
  "rl_reject fuel message callback s = rl_handle fuel (RlReject message callback) s"

definition rl_abandon :: "nat \<Rightarrow> nat \<Rightarrow> cbid option \<Rightarrow> receiver_link \<Rightarrow> receiver_link outcome" where
  "rl_abandon fuel message callback s = rl_handle fuel (RlAbandon message callback) s"

text \<open>The object's own listeners on \<open>newListener\<close> and \<open>removeListener\<close>: the first takes
  the name of the event, the second the number of \<open>message\<close> listeners left.\<close>

definition rl_newListener :: "nat \<Rightarrow> string \<Rightarrow> receiver_link \<Rightarrow> receiver_link outcome" where
  "rl_newListener fuel eventName s =
     (if eventName = ''message'' then rl_handle fuel (RlAttach (Some LazyAttachCallback)) s
      else Normal s)"

definition rl_removeListener :: "nat \<Rightarrow> nat \<Rightarrow> receiver_link \<Rightarrow> receiver_link outcome" where
  "rl_removeListener fuel messageListeners s =
     (if messageListeners = 0 then rl_handle fuel RlDetach s else Normal s)"

text \<open>The environment: the \<open>createReceiver\<close> promise settles and schedules the report; the
  scheduled report runs (the callback \<open>attaching._onEnter\<close> passed to \<open>_attachLink\<close>); the
  link object emits \<open>detached\<close> while \<open>_detachHandler\<close> is registered on it, that is in
  \<open>attached\<close>.\<close>

definition createReceiverResolved :: "nat \<Rightarrow> jserror option \<Rightarrow> receiver_link \<Rightarrow> receiver_link" where
  "createReceiverResolved receiver connectionError s =
     (if rl_pendingCreate s = 0 then s
      else
        (let s0 = rl_emit RlClientRemoveErrorListener (s\<lparr> rl_pendingCreate := rl_pendingCreate s - 1 \<rparr>);
             s1 = (if connectionError = None then s0\<lparr> rl_linkObject := Some receiver \<rparr> else s0)
         in rl_emit (RlNextTick connectionError) (s1\<lparr> rl_ticks := rl_ticks s1 @ [connectionError] \<rparr>)))"

definition createReceiverRejected :: "receiver_link \<Rightarrow> receiver_link" where
  "createReceiverRejected s =
     (if rl_pendingCreate s = 0 then s
      else
        (let error = Some (NotConnectedError ''AMQP: Could not create receiver'');
             s0 = s\<lparr> rl_pendingCreate := rl_pendingCreate s - 1 \<rparr>
         in rl_emit (RlNextTick error) (s0\<lparr> rl_ticks := rl_ticks s0 @ [error] \<rparr>)))"

definition rl_attachLinkDone :: "nat \<Rightarrow> jserror option \<Rightarrow> receiver_link \<Rightarrow> receiver_link outcome" where
  "rl_attachLinkDone fuel err s =
     andThen (rl_transition fuel (if err = None then Attached else Detached) s)
       (\<lambda>s'. case rl_attachCallback s' of
                None \<Rightarrow> Normal s'
              | Some cb \<Rightarrow> rl_call (Some cb) err (s'\<lparr> rl_attachCallback := None \<rparr>))"

definition rl_runTick :: "nat \<Rightarrow> receiver_link \<Rightarrow> receiver_link outcome" where
  "rl_runTick fuel s =
     (case rl_ticks s of
        [] \<Rightarrow> Normal s
      | err # rest \<Rightarrow> rl_attachLinkDone fuel err (s\<lparr> rl_ticks := rest \<rparr>))"

definition rl_detachHandler :: "nat \<Rightarrow> jserror option \<Rightarrow> receiver_link \<Rightarrow> receiver_link outcome" where
  "rl_detachHandler fuel detachError s =
     (let s1 = s\<lparr> rl_linkObject := None \<rparr>;
          s2 = (case detachError of None \<Rightarrow> s1 | Some e \<Rightarrow> rl_emit (RlEmitError e) s1)
      in rl_transition fuel Detached s2)"

definition rl_linkDetached :: "nat \<Rightarrow> jserror option \<Rightarrow> receiver_link \<Rightarrow> receiver_link outcome" where
  "rl_linkDetached fuel detachError s =
     (if rl_state s = Attached then rl_detachHandler fuel detachError s else Normal s)"


section \<open>AmqpTwinReceiver (the twin client)\<close>

subsection \<open>JavaScript values\<close>

text \<open>
  The arguments of \<open>sendTwinRequest\<close> are JavaScript values: \<open>undefined\<close>, \<open>null\<close>, a boolean,
  a number, a string, or a plain object, which is the list of its own properties in the order
  of \<open>Object.keys\<close> (the keys of an object are distinct). What JavaScript does with a number,
  whether it is truthy and how \<open>toString\<close> prints it, and the identifiers \<open>uuid.v4()\<close>
  returns, are parameters of the model.
\<close>

record 'n js_env =
  num_truthy :: "'n \<Rightarrow> bool"
  num_toString :: "'n \<Rightarrow> string"
  uuid_v4 :: "nat \<Rightarrow> string"

fun truthy :: "'n js_env \<Rightarrow> 'n jsval \<Rightarrow> bool" where
  "truthy env JUndefined = False"
| "truthy env JNull = False"
| "truthy env (JBool b) = b"
| "truthy env (JNum n) = num_truthy env n"
| "truthy env (JStr s) = (s \<noteq> [])"
| "truthy env (JObject ps) = True"

fun isString :: "'n jsval \<Rightarrow> bool" where
  "isString (JStr s) = True"
| "isString v = False"

fun isNumber :: "'n jsval \<Rightarrow> bool" where
  "isNumber (JNum n) = True"
| "isNumber v = False"

fun isBoolean :: "'n jsval \<Rightarrow> bool" where
  "isBoolean (JBool b) = True"
| "isBoolean v = False"

fun isObject :: "'n jsval \<Rightarrow> bool" where
  "isObject (JObject ps) = True"
| "isObject v = False"

text \<open>\<open>v.toString()\<close>; on \<open>undefined\<close> and \<open>null\<close> the call is a \<open>TypeError\<close> (\<open>None\<close>).\<close>

fun toString :: "'n js_env \<Rightarrow> 'n jsval \<Rightarrow> string option" where
  "toString env JUndefined = None"
| "toString env JNull = None"
| "toString env (JBool b) = Some (if b then ''true'' else ''false'')"
| "toString env (JNum n) = Some (num_toString env n)"
| "toString env (JStr s) = Some s"
| "toString env (JObject ps) = Some ''[object Object]''"

subsection \<open>The request encoding of \<open>_sendTwinRequest\<close>\<close>

text \<open>An object whose properties are assigned one by one is an association list:
  \<open>AList.update\<close> overwrites the value of a key that is there and appends a new key.
  \<open>messageAnnotations\<close> is created as the plain object \<open>{}\<close>, so the key \<open>__proto__\<close> is not
  like the others: an assignment to it calls the setter the object inherits, which sets the
  prototype when the value is an object or \<open>null\<close> and does nothing for any other value, and
  in neither case gives the object a property.\<close>

record 'n AmqpMessage =
  messageAnnotations :: "(string \<times> 'n jsval) list"
  msg_properties :: "(string \<times> 'n jsval) list"
  msg_body :: string

text \<open>The body of \<open>Object.keys(properties).forEach\<close>, run over the properties in order.
  A properties object that \<open>JSON.parse\<close> built can have \<open>__proto__\<close> among its own keys; the
  value assigned under it has passed the check before, so it is a string, a number or a
  boolean, and the assignment does nothing.\<close>

fun setProperties :: "'n js_env \<Rightarrow> (string \<times> 'n jsval) list \<Rightarrow> 'n AmqpMessage
    \<Rightarrow> jserror + 'n AmqpMessage" where
  "setProperties env [] amqpMessage = Inr amqpMessage"
| "setProperties env ((key, v) # rest) amqpMessage =
     (if \<not> isString v \<and> \<not> isNumber v \<and> \<not> isBoolean v
      then Inl (ArgumentError ''required properties object has non-string properties'')
      else if key = ''$rid'' then
        (case toString env v of
           None \<Rightarrow> Inl TypeError
         | Some str \<Rightarrow>
             setProperties env rest
               (amqpMessage\<lparr> msg_properties :=
                  AList.update ''correlationId'' (JStr str) (msg_properties amqpMessage) \<rparr>))
      else if key = ''__proto__'' then setProperties env rest amqpMessage
      else setProperties env rest
             (amqpMessage\<lparr> messageAnnotations :=
                AList.update key v (messageAnnotations amqpMessage) \<rparr>))"

definition trimResource :: "string \<Rightarrow> string" where
  "trimResource resource =
     (if length resource > 0 \<and> last resource = CHR ''/'' then butlast resource else resource)"

definition buildTwinRequest :: "'n js_env \<Rightarrow> 'n jsval \<Rightarrow> 'n jsval \<Rightarrow> 'n jsval \<Rightarrow> 'n jsval
    \<Rightarrow> jserror + 'n AmqpMessage" where
  "buildTwinRequest env method resource properties body =
     (if \<not> (truthy env method \<and> truthy env resource \<and> truthy env properties \<and> truthy env body)
      then Inl (ReferenceError ''required parameter is missing'')
      else case (method, resource) of
        (JStr m, JStr r) \<Rightarrow>
          (case properties of
             JObject bag \<Rightarrow>
               (let a0 = AList.update ''operation'' (JStr m) [];
                    localResource = trimResource r;
                    a1 = (if length localResource > 0
                          then AList.update ''resource'' (JStr localResource) a0 else a0);
                    a2 = (if m = ''PATCH'' then AList.update ''version'' JNull a1 else a1)
                in case setProperties env bag
                          \<lparr> messageAnnotations = a2, msg_properties = [], msg_body = [] \<rparr> of
                     Inl e \<Rightarrow> Inl e
                   | Inr amqpMessage \<Rightarrow>
                       (case toString env body of
                          None \<Rightarrow> Inl TypeError
                        | Some b \<Rightarrow> Inr (amqpMessage\<lparr> msg_body := b \<rparr>)))
           | _ \<Rightarrow> Inl (ArgumentError ''required properties parameter is not an object''))
      | _ \<Rightarrow> Inl (ArgumentError ''required string parameter is not a string''))"

subsection \<open>The state machine\<close>

datatype twin_state = Disconnected | Connecting | Connected | Disconnecting

datatype 'n twin_input =
    HandleNewListener string
  | HandleRemoveListener string
  | SendTwinRequest "'n jsval" "'n jsval" "'n jsval" "'n jsval" "cbid option"
  | HandleDownstreamLinkDetach

datatype internal_operation = EmitPostSubscribed | DebugTurnedOff

datatype 'n twin_effect =
    TwTransition twin_state twin_state
  | TwEmitError jserror
  | TwEmitErrorReceived "jserror option"
  | TwEmitSubscribed string
  | AttachReceiverLink string
  | AttachSenderLink string
  | DetachSenderLink
  | DetachReceiverLink "nat option"
  | DownstreamOnDetached nat
  | DownstreamOnMessage nat
  | DownstreamOffMessage nat
  | UpstreamSend nat "'n AmqpMessage" "cbid option"

text \<open>
  \<open>tw_inputQueue\<close> is machina's queue of deferred inputs: every \<open>deferUntilTransition\<close> of
  this class names \<open>connected\<close>. \<open>tw_listeners\<close> holds, for every event name, the number of
  listeners the users of the object have added and not removed (an event name that is not in
  the list has none), and \<open>tw_channelCorrelationId\<close> is the value of
  \<open>com.microsoft:channel-correlation-id\<close> in both link options. The last four fields
  describe the environment: how many identifiers \<open>uuid.v4()\<close> has given out, and the calls
  into the client whose callbacks have not run yet.
\<close>

record 'n twin =
  tw_state :: twin_state
  tw_upstreamAmqpLink :: "nat option"
  tw_downstreamAmqpLink :: "nat option"
  tw_internalOperations :: "(string \<times> internal_operation) list"
  tw_inputQueue :: "'n twin_input list"
  tw_listeners :: "(string \<times> nat) list"
  tw_channelCorrelationId :: string
  tw_effects :: "'n twin_effect list"
  tw_uuids :: nat
  tw_pendingReceiverAttach :: nat
  tw_pendingSenderAttach :: nat
  tw_pendingSenderDetach :: nat

definition tw_init :: "'n twin" where
  "tw_init = \<lparr> tw_state = Disconnected, tw_upstreamAmqpLink = None, tw_downstreamAmqpLink = None,
               tw_internalOperations = [], tw_inputQueue = [], tw_listeners = [],
               tw_channelCorrelationId = ''twin:'', tw_effects = [],
               tw_uuids = 0, tw_pendingReceiverAttach = 0, tw_pendingSenderAttach = 0,
               tw_pendingSenderDetach = 0 \<rparr>"

definition tw_emit :: "'n twin_effect \<Rightarrow> 'n twin \<Rightarrow> 'n twin" where
  "tw_emit e s = s\<lparr> tw_effects := tw_effects s @ [e] \<rparr>"

text \<open>\<open>EventEmitter.listenerCount(this, eventName)\<close>.\<close>

definition listenerCount :: "string \<Rightarrow> 'n twin \<Rightarrow> nat" where
  "listenerCount eventName s =
     (case map_of (tw_listeners s) eventName of None \<Rightarrow> 0 | Some n \<Rightarrow> n)"

text \<open>\<open>_onExit\<close> of the current state: only \<open>connected\<close> has one.\<close>

definition tw_onExit :: "'n twin \<Rightarrow> 'n twin outcome" where
  "tw_onExit s =
     (if tw_state s = Connected then
        (case tw_downstreamAmqpLink s of
           None \<Rightarrow> Throw TypeError s
         | Some l \<Rightarrow> Normal (tw_emit (DownstreamOffMessage l) s))
      else Normal s)"

text \<open>\<open>transition('connecting')\<close>: a fresh identifier goes into the attach properties of both
  links, and the receiver link is attached.\<close>

definition tw_transition_connecting :: "'n js_env \<Rightarrow> 'n twin \<Rightarrow> 'n twin outcome" where
  "tw_transition_connecting env s =
     (if tw_state s = Connecting then Normal s
      else andThen (tw_onExit s) (\<lambda>s1.
        (let linkCorrelationId = uuid_v4 env (tw_uuids s1);
             s2 = tw_emit (TwTransition (tw_state s1) Connecting)
                    (s1\<lparr> tw_state := Connecting, tw_uuids := Suc (tw_uuids s1) \<rparr>);
             s3 = s2\<lparr> tw_channelCorrelationId := ''twin:'' @ linkCorrelationId \<rparr>
         in Normal (tw_emit (AttachReceiverLink (tw_channelCorrelationId s3))
              (s3\<lparr> tw_pendingReceiverAttach := Suc (tw_pendingReceiverAttach s3) \<rparr>)))))"

text \<open>\<open>transition('disconnected')\<close>: \<open>_onEnter\<close> goes on to \<open>connecting\<close> when \<open>response\<close> or
  \<open>post\<close> has a listener.\<close>

definition tw_transition_disconnected :: "'n js_env \<Rightarrow> 'n twin \<Rightarrow> 'n twin outcome" where
  "tw_transition_disconnected env s =
     (if tw_state s = Disconnected then Normal s
      else andThen (tw_onExit s) (\<lambda>s1.
        (let s2 = tw_emit (TwTransition (tw_state s1) Disconnected) (s1\<lparr> tw_state := Disconnected \<rparr>)
         in if listenerCount ''post'' s2 + listenerCount ''response'' s2 > 0
            then tw_transition_connecting env s2 else Normal s2)))"

text \<open>\<open>transition('disconnecting')\<close>: \<open>_onEnter\<close> asks the client to detach the sender link
  and transitions to \<open>disconnected\<close> at once.\<close>

definition tw_transition_disconnecting :: "'n js_env \<Rightarrow> 'n twin \<Rightarrow> 'n twin outcome" where
  "tw_transition_disconnecting env s =
     (if tw_state s = Disconnecting then Normal s
      else andThen (tw_onExit s) (\<lambda>s1.
        tw_transition_disconnected env
          (tw_emit DetachSenderLink
             (tw_emit (TwTransition (tw_state s1) Disconnecting)
                (s1\<lparr> tw_state := Disconnecting,
                      tw_pendingSenderDetach := Suc (tw_pendingSenderDetach s1) \<rparr>)))))"

definition tw_send :: "'n AmqpMessage \<Rightarrow> cbid option \<Rightarrow> 'n twin \<Rightarrow> 'n twin outcome" where
  "tw_send message done s =
     (case tw_upstreamAmqpLink s of
        None \<Rightarrow> Throw TypeError s
      | Some l \<Rightarrow> Normal (tw_emit (UpstreamSend l message done) s))"

definition sendTwinRequest_impl :: "'n js_env \<Rightarrow> 'n jsval \<Rightarrow> 'n jsval \<Rightarrow> 'n jsval \<Rightarrow> 'n jsval
    \<Rightarrow> cbid option \<Rightarrow> 'n twin \<Rightarrow> 'n twin outcome" where
  "sendTwinRequest_impl env method resource properties body done s =
     (case buildTwinRequest env method resource properties body of
        Inl e \<Rightarrow> Throw e s
      | Inr amqpMessage \<Rightarrow> tw_send amqpMessage done s)"

definition tw_defer :: "'n twin_input \<Rightarrow> 'n twin \<Rightarrow> 'n twin" where
  "tw_defer inp s = s\<lparr> tw_inputQueue := tw_inputQueue s @ [inp] \<rparr>"

text \<open>The two internal requests of \<open>connected\<close>: a fresh correlation id is recorded in
  \<open>_internalOperations\<close> and sent as \<open>$rid\<close> through the public \<open>sendTwinRequest\<close>, which
  the machine, being in \<open>connected\<close>, hands to \<open>_sendTwinRequest\<close>.\<close>

definition internalRequest :: "'n js_env \<Rightarrow> string \<Rightarrow> internal_operation \<Rightarrow> 'n twin \<Rightarrow> 'n twin outcome" where
  "internalRequest env method operation s =
     (let correlationId = uuid_v4 env (tw_uuids s);
          s1 = s\<lparr> tw_uuids := Suc (tw_uuids s),
                 tw_internalOperations :=
                   AList.update correlationId operation (tw_internalOperations s) \<rparr>
      in sendTwinRequest_impl env (JStr method) (JStr ''/notifications/twin/properties/desired'')
           (JObject [(''$rid'', JStr correlationId)]) (JStr '' '') None s1)"

text \<open>machina's \<open>handle\<close> with the handlers of the four states. \<open>connecting\<close> and
  \<open>disconnecting\<close> have no handler for \<open>handleDownstreamLinkDetach\<close>.\<close>

definition tw_handle :: "'n js_env \<Rightarrow> 'n twin_input \<Rightarrow> 'n twin \<Rightarrow> 'n twin outcome" where
  "tw_handle env inp s =
     (case tw_state s of
        Disconnected \<Rightarrow>
          (case inp of
             HandleNewListener eventName \<Rightarrow>
               (if eventName = ''response'' \<or> eventName = ''post''
                then tw_transition_connecting env (tw_defer inp s) else Normal s)
           | HandleRemoveListener eventName \<Rightarrow> Normal s
           | SendTwinRequest method resource properties body done \<Rightarrow>
               tw_transition_connecting env (tw_defer inp s)
           | HandleDownstreamLinkDetach \<Rightarrow> Normal s)
      | Connecting \<Rightarrow>
          (case inp of
             HandleDownstreamLinkDetach \<Rightarrow> Normal s
           | _ \<Rightarrow> Normal (tw_defer inp s))
      | Connected \<Rightarrow>
          (case inp of
             HandleNewListener eventName \<Rightarrow>
               (if eventName = ''response'' then Normal (tw_emit (TwEmitSubscribed ''response'') s)
                else if eventName = ''post'' then internalRequest env ''PUT'' EmitPostSubscribed s
                else Normal s)
           | HandleRemoveListener eventName \<Rightarrow>
               (if eventName = ''post'' \<and> listenerCount ''post'' s = 0
                then internalRequest env ''DELETE'' DebugTurnedOff s else Normal s)
           | SendTwinRequest method resource properties body done \<Rightarrow>
               sendTwinRequest_impl env method resource properties body done s
           | HandleDownstreamLinkDetach \<Rightarrow> tw_transition_disconnecting env s)
      | Disconnecting \<Rightarrow>
          (case inp of
             HandleDownstreamLinkDetach \<Rightarrow> Normal s
           | _ \<Rightarrow> Normal (tw_defer inp s)))"

text \<open>machina's \<open>processQueue\<close>: the inputs are taken off the queue before they are handled,
  so an exception loses the ones not yet handled.\<close>

fun tw_replay :: "'n js_env \<Rightarrow> 'n twin_input list \<Rightarrow> 'n twin \<Rightarrow> 'n twin outcome" where
  "tw_replay env [] s = Normal s"
| "tw_replay env (inp # inps) s = andThen (tw_handle env inp s) (tw_replay env inps)"

text \<open>\<open>transition('connected')\<close>, called by the sender link's attach callback only:
  \<open>_onEnter\<close> subscribes to the receiver link's messages, then the deferred inputs are
  replayed.\<close>

definition tw_transition_connected :: "'n js_env \<Rightarrow> 'n twin \<Rightarrow> 'n twin outcome" where
  "tw_transition_connected env s =
     (if tw_state s = Connected then Normal s
      else
        (let s1 = tw_emit (TwTransition (tw_state s) Connected) (s\<lparr> tw_state := Connected \<rparr>) in
         case tw_downstreamAmqpLink s1 of
           None \<Rightarrow> Throw TypeError s1
         | Some l \<Rightarrow>
             tw_replay env (tw_inputQueue s1)
               ((tw_emit (DownstreamOnMessage l) s1)\<lparr> tw_inputQueue := [] \<rparr>)))"

text \<open>The public method, and the object's listeners on its own \<open>newListener\<close> and
  \<open>removeListener\<close> events: Node emits the first before it adds the listener and the second
  after it has removed it, so not at all when there is no listener to remove.\<close>

definition sendTwinRequest :: "'n js_env \<Rightarrow> 'n jsval \<Rightarrow> 'n jsval \<Rightarrow> 'n jsval \<Rightarrow> 'n jsval
    \<Rightarrow> cbid option \<Rightarrow> 'n twin \<Rightarrow> 'n twin outcome" where
  "sendTwinRequest env method resource properties body done s =
     tw_handle env (SendTwinRequest method resource properties body done) s"

definition countListener :: "string \<Rightarrow> (nat \<Rightarrow> nat) \<Rightarrow> 'n twin \<Rightarrow> 'n twin" where
  "countListener eventName f s =
     s\<lparr> tw_listeners := AList.update eventName (f (listenerCount eventName s)) (tw_listeners s) \<rparr>"

definition tw_on :: "'n js_env \<Rightarrow> string \<Rightarrow> 'n twin \<Rightarrow> 'n twin outcome" where
  "tw_on env eventName s =
     andThen (tw_handle env (HandleNewListener eventName) s)
       (\<lambda>s'. Normal (countListener eventName Suc s'))"

definition tw_removeListener :: "'n js_env \<Rightarrow> string \<Rightarrow> 'n twin \<Rightarrow> 'n twin outcome" where
  "tw_removeListener env eventName s =
     (if listenerCount eventName s = 0 then Normal s
      else tw_handle env (HandleRemoveListener eventName) (countListener eventName (\<lambda>n. n - 1) s))"

text \<open>
  \<open>_handleError\<close> emits \<open>error\<close>, which an \<open>EventEmitter\<close> without a listener for \<open>error\<close>
  does by throwing the error. Then the callbacks of the client calls, and the \<open>detached\<close>
  event of the receiver link object, on which \<open>_onAmqpDetached\<close> is registered once the link
  is attached. The callback of \<open>detachSenderLink\<close> asks for the detach of the receiver link
  whether or not it got an error; the callback of \<open>detachReceiverLink\<close> only writes a debug
  line.
\<close>

definition handleError :: "jserror \<Rightarrow> 'n twin \<Rightarrow> 'n twin outcome" where
  "handleError err s =
     (if listenerCount ''error'' s = 0 then Throw err s else Normal (tw_emit (TwEmitError err) s))"

definition receiverAttached :: "'n js_env \<Rightarrow> jserror option \<Rightarrow> nat \<Rightarrow> 'n twin \<Rightarrow> 'n twin outcome" where
  "receiverAttached env receiverLinkError receiverTransportObject s =
     (if tw_pendingReceiverAttach s = 0 then Normal s
      else
        (let s0 = s\<lparr> tw_pendingReceiverAttach := tw_pendingReceiverAttach s - 1 \<rparr> in
         case receiverLinkError of
           Some e \<Rightarrow>
             andThen (andThen (handleError e s0) (tw_transition_disconnected env))
               (\<lambda>s'. Normal (tw_emit (TwEmitErrorReceived receiverLinkError) s'))
         | None \<Rightarrow>
             Normal (tw_emit (AttachSenderLink (tw_channelCorrelationId s0))
               (tw_emit (DownstreamOnDetached receiverTransportObject)
                  (s0\<lparr> tw_downstreamAmqpLink := Some receiverTransportObject,
                       tw_pendingSenderAttach := Suc (tw_pendingSenderAttach s0) \<rparr>)))))"

text \<open>The callback of \<open>attachSenderLink\<close> is a closure inside the callback of
  \<open>attachReceiverLink\<close>; in its error branch it emits \<open>errorReceived\<close> with
  \<open>receiverLinkError\<close>, the error of the receiver link's attach, which is empty there.\<close>

definition senderAttached :: "'n js_env \<Rightarrow> jserror option \<Rightarrow> nat \<Rightarrow> 'n twin \<Rightarrow> 'n twin outcome" where
  "senderAttached env senderLinkError senderTransportObject s =
     (if tw_pendingSenderAttach s = 0 then Normal s
      else
        (let s0 = s\<lparr> tw_pendingSenderAttach := tw_pendingSenderAttach s - 1 \<rparr> in
         case senderLinkError of
           Some e \<Rightarrow>
             andThen (andThen (handleError e s0) (tw_transition_disconnected env))
               (\<lambda>s'. Normal (tw_emit (TwEmitErrorReceived None) s'))
         | None \<Rightarrow>
             tw_transition_connected env
               (s0\<lparr> tw_upstreamAmqpLink := Some senderTransportObject \<rparr>)))"

definition onAmqpDetached :: "'n js_env \<Rightarrow> 'n twin \<Rightarrow> 'n twin outcome" where
  "onAmqpDetached env s =
     (case tw_downstreamAmqpLink s of
        None \<Rightarrow> Normal s
      | Some l \<Rightarrow> tw_handle env HandleDownstreamLinkDetach s)"

definition senderDetached :: "jserror option \<Rightarrow> 'n twin \<Rightarrow> 'n twin" where
  "senderDetached err s =
     (if tw_pendingSenderDetach s = 0 then s
      else tw_emit (DetachReceiverLink (tw_downstreamAmqpLink s))
             (s\<lparr> tw_pendingSenderDetach := tw_pendingSenderDetach s - 1 \<rparr>))"

datatype 'n twin_event =
    On string
  | RemoveListener string
  | CallSendTwinRequest "'n jsval" "'n jsval" "'n jsval" "'n jsval" "cbid option"
  | ReceiverAttached "jserror option" nat
  | SenderAttached "jserror option" nat
  | DownstreamDetached
  | SenderDetached "jserror option"

fun tw_step :: "'n js_env \<Rightarrow> 'n twin_event \<Rightarrow> 'n twin \<Rightarrow> 'n twin outcome" where
  "tw_step env (On eventName) s = tw_on env eventName s"
| "tw_step env (RemoveListener eventName) s = tw_removeListener env eventName s"
| "tw_step env (CallSendTwinRequest method resource properties body done) s =
     sendTwinRequest env method resource properties body done s"
| "tw_step env (ReceiverAttached err l) s = receiverAttached env err l s"
| "tw_step env (SenderAttached err l) s = senderAttached env err l s"
| "tw_step env DownstreamDetached s = onAmqpDetached env s"
| "tw_step env (SenderDetached err) s = Normal (senderDetached err s)"

fun tw_run :: "'n js_env \<Rightarrow> 'n twin_event list \<Rightarrow> 'n twin \<Rightarrow> 'n twin" where
  "tw_run env [] s = s"
| "tw_run env (ev # evs) s = tw_run env evs (stateOf (tw_step env ev s))"


section \<open>Example runs\<close>

text \<open>An agent whose attach has completed, and the same agent after two \<open>putToken\<close> calls, at
  the clock values 100 and 200 (in seconds).\<close>

definition cbs_attached_example :: cbs where
  "cbs_attached_example =
     stateOf (andThen (andThen (cbs_attach 1 (Some 7) cbs_init) (senderAttachDone 1 0 None))
                (receiverAttachDone 1 0 None))"

definition cbs_pending_example :: cbs where
  "cbs_pending_example =
     stateOf (andThen (cbs_putToken 1 ''audience1'' ''token1'' (Some 21) ''id-a'' 100 cbs_attached_example)
                (cbs_putToken 1 ''audience2'' ''token2'' (Some 22) ''id-b'' 200))"

text \<open>The same agent after three \<open>putToken\<close> calls at the clock values 100, 150 and 200,
  the first of them without a callback.\<close>

definition cbs_no_callback_example :: cbs where
  "cbs_no_callback_example =
     stateOf (andThen (andThen
        (cbs_putToken 1 ''audience1'' ''token1'' None ''id-a'' 100 cbs_attached_example)
        (cbs_putToken 1 ''audience2'' ''token2'' (Some 22) ''id-b'' 150))
        (cbs_putToken 1 ''audience3'' ''token3'' (Some 23) ''id-c'' 200))"

text \<open>An agent that is not \<open>attached\<close> and whose links are not both \<open>attached\<close>.\<close>

definition links_down :: "cbs \<Rightarrow> bool" where
  "links_down s = (cbs_state s \<noteq> Attached
     \<and> \<not> (senderLinkState s = Attached \<and> receiverLinkState s = Attached))"

text \<open>The callbacks a sender link has called so far, in order.\<close>

definition isInvoke :: "sl_effect \<Rightarrow> bool" where
  "isInvoke e = (case e of SlInvoke c r \<Rightarrow> True | _ \<Rightarrow> False)"

definition sl_invoked :: "sender_link \<Rightarrow> sl_effect list" where
  "sl_invoked s = filter isInvoke (sl_effects s)"

text \<open>A sender link holds no link object: the field is empty and the machine is not in
  \<open>attached\<close>.\<close>

definition sl_unlinked :: "sender_link \<Rightarrow> bool" where
  "sl_unlinked s = (sl_linkObject s = None \<and> sl_state s \<noteq> Attached)"

text \<open>A sender link whose attach has completed, and one that is attaching with two requests
  in its queue. A receiver link whose attach has completed.\<close>

definition sl_attached_example :: sender_link where
  "sl_attached_example =
     fst (sl_run 1 [CallAttach (Some 10), CreateSenderResolved 0 None] (sl_init, []))"

definition sl_queued_example :: sender_link where
  "sl_queued_example =
     fst (sl_run 1 [CallAttach (Some 10), CallSend 1 (Some 11), CallSend 2 (Some 12)] (sl_init, []))"

definition rl_attached_example :: receiver_link where
  "rl_attached_example =
     stateOf (andThen (andThen (rl_attach 2 (Some 3) rl_init)
                         (\<lambda>s. Normal (createReceiverResolved 7 None s)))
                (rl_runTick 2))"

text \<open>An environment for the twin client's examples: numbers are integers, printed in a
  way the examples do not depend on, and the \<open>n\<close>-th identifier is \<open>n\<close> letters long.\<close>

definition twin_example_env :: "int js_env" where
  "twin_example_env =
     \<lparr> num_truthy = (\<lambda>n. n \<noteq> 0), num_toString = (\<lambda>n. ''<number>''),
       uuid_v4 = (\<lambda>n. replicate (Suc n) CHR ''u'') \<rparr>"

text \<open>A twin client that is connected: listeners for \<open>error\<close> and \<open>response\<close> were added,
  the receiver link attached and then the sender link. And the run in which the attach of
  the sender link fails instead.\<close>

definition tw_connected_example :: "int twin" where
  "tw_connected_example =
     tw_run twin_example_env
       [On ''error'', On ''response'', ReceiverAttached None 1, SenderAttached None 2] tw_init"



section \<open>Properties of the ClaimsBasedSecurityAgent\<close>

lemmas cbs_defs = cbs_attach_def cbs_init_def cbs_transition_attaching_def senderLink_attach_def
  receiverLink_attach_def senderLink_detach_def receiverLink_detach_def senderLink_send_def
  cbs_emit_def senderAttachDone_def receiverAttachDone_def senderAttachOk_def receiverAttachOk_def
  cbs_transition_attached_def cbs_call_def cbs_putToken_def attached_putToken_def
  numberOfSecondsToTimeout_def putTokenTimeOutExaminationInterval_def buildPutToken_def

lemma cbs_attached_example_eq:
  "cbs_attached_example =
     \<lparr> cbs_state = Attached, cbs_attachCallback = None, outstandingPutTokens = [],
       attachRounds = [(True, True)], senderLinkState = Attached, receiverLinkState = Attached,
       cbs_inputQueue = [],
       cbs_effects = [SenderLinkAttach 0, ReceiverLinkAttach 0, ReceiverLinkOnMessage,
                      CbsInvoke 7 None] \<rparr>"
  by (simp add: cbs_attached_example_def cbs_defs Let_def)

lemma cbs_pending_example_eq:
  "cbs_pending_example =
     \<lparr> cbs_state = Attached, cbs_attachCallback = None,
       outstandingPutTokens =
         [\<lparr> putTokenCallback = Some 21, expirationTime = 220, correlationId = ''id-a'' \<rparr>,
          \<lparr> putTokenCallback = Some 22, expirationTime = 320, correlationId = ''id-b'' \<rparr>],
       attachRounds = [(True, True)], senderLinkState = Attached, receiverLinkState = Attached,
       cbs_inputQueue = [],
       cbs_effects = [SenderLinkAttach 0, ReceiverLinkAttach 0, ReceiverLinkOnMessage,
                      CbsInvoke 7 None, SetTimeout 10000,
                      SenderLinkSend (buildPutToken ''audience1'' ''token1'' ''id-a''),
                      SenderLinkSend (buildPutToken ''audience2'' ''token2'' ''id-b'')] \<rparr>"
  by (simp add: cbs_pending_example_def cbs_attached_example_eq cbs_putToken_def
      attached_putToken_def senderLink_send_def cbs_emit_def numberOfSecondsToTimeout_def
      putTokenTimeOutExaminationInterval_def buildPutToken_def Let_def)

subsection \<open>The timeout sweep\<close>

lemma sweep_loop_takeWhile:
  "sweep_loop t acc ps =
     (acc @ takeWhile (\<lambda>p. expirationTime p < t) ps, dropWhile (\<lambda>p. expirationTime p < t) ps)"
  by (induction ps arbitrary: acc) auto

lemma forEach_expired_all:
  "\<forall>p \<in> set ps. putTokenCallback p \<noteq> None \<Longrightarrow>
   forEach_expired ps s =
     Normal (s\<lparr> cbs_effects := cbs_effects s @
       map (\<lambda>p. CbsInvoke (the (putTokenCallback p)) (Some (TimeoutError timeoutMessage))) ps \<rparr>)"
  by (induction ps arbitrary: s) (auto simp: cbs_call_def cbs_emit_def)

lemma monotone_takeWhile_filter:
  "sorted_wrt (\<lambda>a b. expirationTime a \<le> expirationTime b) ps \<Longrightarrow>
   takeWhile (\<lambda>p. expirationTime p < t) ps = filter (\<lambda>p. expirationTime p < t) ps"
proof (induction ps)
  case Nil
  show ?case by simp
next
  case (Cons a ps)
  show ?case
  proof (cases "expirationTime a < t")
    case True
    with Cons show ?thesis by simp
  next
    case False
    with Cons.prems have "\<forall>x \<in> set ps. \<not> expirationTime x < t" by auto
    then have "filter (\<lambda>p. expirationTime p < t) ps = []" by (simp add: filter_empty_conv)
    with False show ?thesis by simp
  qed
qed

lemma monotone_dropWhile_filter:
  "sorted_wrt (\<lambda>a b. expirationTime a \<le> expirationTime b) ps \<Longrightarrow>
   dropWhile (\<lambda>p. expirationTime p < t) ps = filter (\<lambda>p. \<not> expirationTime p < t) ps"
proof (induction ps)
  case Nil
  show ?case by simp
next
  case (Cons a ps)
  show ?case
  proof (cases "expirationTime a < t")
    case True
    with Cons show ?thesis by simp
  next
    case False
    with Cons.prems have "\<forall>x \<in> set ps. \<not> expirationTime x < t" by auto
    then have "filter (\<lambda>p. \<not> expirationTime p < t) ps = ps" by (simp add: filter_id_conv)
    with False show ?thesis by simp
  qed
qed

text \<open>The list of pending operations stays ordered by deadline: \<open>putToken\<close> appends an
  operation whose deadline is the clock plus 120 seconds, so the order is kept as long as the
  clock does not go back behind a deadline already given out, and removing operations keeps
  it.\<close>

lemma attached_putToken_keeps_order:
  assumes "sorted_wrt (\<lambda>a b. expirationTime a \<le> expirationTime b) (outstandingPutTokens s)"
    and "\<forall>p \<in> set (outstandingPutTokens s). expirationTime p \<le> now + numberOfSecondsToTimeout"
  shows "sorted_wrt (\<lambda>a b. expirationTime a \<le> expirationTime b)
           (outstandingPutTokens (attached_putToken audience token cb uuid now s))"
  using assms
  by (simp add: attached_putToken_def senderLink_send_def cbs_emit_def Let_def sorted_wrt_append)

lemma remove1_keeps_order:
  "sorted_wrt (\<lambda>a b. expirationTime a \<le> expirationTime b) ps \<Longrightarrow>
   sorted_wrt (\<lambda>a b. expirationTime a \<le> expirationTime b) (remove1 p ps)"
  by (induction ps) (auto dest: notin_set_remove1)

text \<open>
  A run of the timeout sweep at the time \<open>t\<close>, on an agent whose pending operations all
  carry a callback: it takes the pending operations off the front of the list as long as
  their deadline is before \<open>t\<close> and stops at the first one that is not expired; it calls the
  callback of each operation it took off, once, in order, with a \<open>TimeoutError\<close>; and it sets
  the 10 second timer again exactly when operations remain. When the list is ordered by
  deadline, as appending at insertion keeps it, the operations taken off are exactly the
  expired ones and the operations left are exactly the others.
\<close>

lemma removeExpiredPutTokens_with_callbacks:
  assumes callbacks: "\<forall>p \<in> set (outstandingPutTokens s). putTokenCallback p \<noteq> None"
  shows "\<exists>s'. removeExpiredPutTokens t s = Normal s'
    \<and> outstandingPutTokens s' = dropWhile (\<lambda>p. expirationTime p < t) (outstandingPutTokens s)
    \<and> cbs_effects s' = cbs_effects s
        @ map (\<lambda>p. CbsInvoke (the (putTokenCallback p)) (Some (TimeoutError timeoutMessage)))
            (takeWhile (\<lambda>p. expirationTime p < t) (outstandingPutTokens s))
        @ (if outstandingPutTokens s' \<noteq> [] then [SetTimeout 10000] else [])
    \<and> (sorted_wrt (\<lambda>a b. expirationTime a \<le> expirationTime b) (outstandingPutTokens s) \<longrightarrow>
         takeWhile (\<lambda>p. expirationTime p < t) (outstandingPutTokens s)
           = filter (\<lambda>p. expirationTime p < t) (outstandingPutTokens s)
         \<and> outstandingPutTokens s' = filter (\<lambda>p. \<not> expirationTime p < t) (outstandingPutTokens s))"
proof -
  let ?ps = "outstandingPutTokens s"
  have "\<forall>p \<in> set (takeWhile (\<lambda>p. expirationTime p < t) ?ps). putTokenCallback p \<noteq> None"
    using callbacks by (meson set_takeWhileD)
  from forEach_expired_all[OF this]
  show ?thesis
    by (simp add: removeExpiredPutTokens_def sweep_loop_takeWhile cbs_emit_def
        putTokenTimeOutExaminationInterval_def monotone_takeWhile_filter monotone_dropWhile_filter)
qed

lemma removeExpiredPutTokens_with_callbacks_example:
  "\<exists>s'. removeExpiredPutTokens 250 cbs_pending_example = Normal s'
     \<and> outstandingPutTokens s' =
         [\<lparr> putTokenCallback = Some 22, expirationTime = 320, correlationId = ''id-b'' \<rparr>]
     \<and> cbs_effects s' = cbs_effects cbs_pending_example
         @ [CbsInvoke 21 (Some (TimeoutError timeoutMessage)), SetTimeout 10000]"
proof -
  have h: "\<forall>p \<in> set (outstandingPutTokens cbs_pending_example). putTokenCallback p \<noteq> None"
    by (simp add: cbs_pending_example_eq)
  from removeExpiredPutTokens_with_callbacks[OF h, of 250]
  show ?thesis by (auto simp: cbs_pending_example_eq)
qed

lemma cbs_no_callback_example_eq:
  "cbs_no_callback_example =
     cbs_attached_example\<lparr> outstandingPutTokens :=
         [\<lparr> putTokenCallback = None, expirationTime = 220, correlationId = ''id-a'' \<rparr>,
          \<lparr> putTokenCallback = Some 22, expirationTime = 270, correlationId = ''id-b'' \<rparr>,
          \<lparr> putTokenCallback = Some 23, expirationTime = 320, correlationId = ''id-c'' \<rparr>],
       cbs_effects := cbs_effects cbs_attached_example @
          [SetTimeout 10000,
           SenderLinkSend (buildPutToken ''audience1'' ''token1'' ''id-a''),
           SenderLinkSend (buildPutToken ''audience2'' ''token2'' ''id-b''),
           SenderLinkSend (buildPutToken ''audience3'' ''token3'' ''id-c'')] \<rparr>"
  by (simp add: cbs_no_callback_example_def cbs_attached_example_eq cbs_putToken_def
      attached_putToken_def senderLink_send_def cbs_emit_def numberOfSecondsToTimeout_def
      putTokenTimeOutExaminationInterval_def buildPutToken_def Let_def)

text \<open>
  Claim C4, at an agent with three pending operations, the first of which was put without a
  callback: \<open>putToken\<close> checks the audience and the token only, and the requirement comments
  of the sweep speak of the callback \<open>(if supplied)\<close>. The operations have the deadlines 220,
  270 and 320, and the sweep runs at the time 300. It takes the first two off the list and
  then calls the callback of the first, which is \<open>undefined\<close>: a \<open>TypeError\<close> ends the sweep.
  The callback of the second operation, which was removed, is not called, and the timer is
  not set again although the third operation is still pending: the record differs from the
  one before the sweep in the list of pending operations only.
\<close>

theorem removeExpiredPutTokens_throws_without_callback:
  "removeExpiredPutTokens 300 cbs_no_callback_example
     = Throw TypeError (cbs_no_callback_example\<lparr> outstandingPutTokens :=
         [\<lparr> putTokenCallback = Some 23, expirationTime = 320, correlationId = ''id-c'' \<rparr>] \<rparr>)"
  by (simp add: cbs_no_callback_example_eq cbs_attached_example_eq removeExpiredPutTokens_def
      cbs_call_def)

subsection \<open>The response handler\<close>

lemma message_loop_find:
  "message_loop msg passed ps s =
     (case find (\<lambda>p. msg_correlationId msg = Some (correlationId p)) ps of
        None \<Rightarrow> s
      | Some p \<Rightarrow>
          s\<lparr> outstandingPutTokens := passed @ remove1 p ps,
             cbs_effects := cbs_effects s @
               (case putTokenCallback p of
                  None \<Rightarrow> []
                | Some c \<Rightarrow> [CbsInvoke c (if status_code msg = JNum 200 then None
                                          else Some (UnauthorizedError (status_description msg)))]) \<rparr>)"
proof (induction ps arbitrary: passed)
  case Nil
  show ?case by simp
next
  case (Cons p ps)
  show ?case
  proof (cases "msg_correlationId msg = Some (correlationId p)")
    case True
    then show ?thesis by (cases "putTokenCallback p") (simp_all add: cbs_emit_def)
  next
    case False
    then have neq: "find (\<lambda>q. msg_correlationId msg = Some (correlationId q)) ps = Some q \<Longrightarrow> q \<noteq> p" for q
      by (auto simp: find_Some_iff)
    show ?thesis
      using False Cons[of "passed @ [p]"] neq
      by (auto split: option.splits)
  qed
qed

text \<open>What the agent's call \<open>_receiverLink.accept(msg)\<close> does on a receiver link that is
  \<open>Attached\<close>, the state in which the link emits messages: it accepts the message on the link
  object.\<close>

lemma rl_accept_when_attached:
  "rl_state r = Attached \<Longrightarrow> \<not> rl_inExitHandler r \<Longrightarrow> rl_linkObject r = Some l \<Longrightarrow>
   rl_accept fuel message None r = Normal (rl_emit (RlLinkAccept l message) r)"
  by (simp add: rl_accept_def rl_settle_def)

text \<open>
  Claim C5. For every message delivered on the receiver link: when a pending operation has
  the message's correlation id, the first such operation is removed from the list and its
  callback (when it has one) is called once, with no error exactly when the status code is the
  number 200 and with an \<open>UnauthorizedError\<close> carrying the status description otherwise; when
  no pending operation has that id, the list is left alone and no callback is called. In both
  cases the message is then accepted on the receiver link.
\<close>

theorem onReceiverMessage_demultiplex:
  "onReceiverMessage msg s =
     (case find (\<lambda>p. msg_correlationId msg = Some (correlationId p)) (outstandingPutTokens s) of
        None \<Rightarrow> s\<lparr> cbs_effects := cbs_effects s @ [ReceiverLinkAccept msg] \<rparr>
      | Some p \<Rightarrow>
          s\<lparr> outstandingPutTokens := remove1 p (outstandingPutTokens s),
             cbs_effects := cbs_effects s @
               (case putTokenCallback p of
                  None \<Rightarrow> []
                | Some c \<Rightarrow> [CbsInvoke c (if status_code msg = JNum 200 then None
                                          else Some (UnauthorizedError (status_description msg)))])
               @ [ReceiverLinkAccept msg] \<rparr>)"
  by (simp add: onReceiverMessage_def message_loop_find cbs_emit_def split: option.splits)

theorem onReceiverMessage_demultiplex_witness:
  "outstandingPutTokens (onReceiverMessage
       \<lparr> msg_correlationId = Some ''id-b'', status_code = JNum 401,
         status_description = JStr ''denied'' \<rparr> cbs_pending_example)
     = [\<lparr> putTokenCallback = Some 21, expirationTime = 220, correlationId = ''id-a'' \<rparr>]
   \<and> cbs_effects (onReceiverMessage
       \<lparr> msg_correlationId = Some ''id-b'', status_code = JNum 401,
         status_description = JStr ''denied'' \<rparr> cbs_pending_example)
     = cbs_effects cbs_pending_example
       @ [CbsInvoke 22 (Some (UnauthorizedError (JStr ''denied''))),
          ReceiverLinkAccept \<lparr> msg_correlationId = Some ''id-b'', status_code = JNum 401,
                               status_description = JStr ''denied'' \<rparr>]"
  using onReceiverMessage_demultiplex[of
      "\<lparr> msg_correlationId = Some ''id-b'', status_code = JNum 401,
         status_description = JStr ''denied'' \<rparr>" cbs_pending_example]
  by (simp add: cbs_pending_example_eq)

subsection \<open>The agent's calls into its links\<close>

text \<open>
  What the agent's model takes a call of \<open>attach\<close>, \<open>detach\<close> or \<open>send\<close> to do to the state
  of a link is what the model of the link class does, on a link whose machine is not stuck in
  an exit handler, that has no deferred input, and that holds a link object exactly when it is
  \<open>attached\<close>: the two agree on the state the link is left in, on the exception thrown, and
  on whether the callback of an \<open>attach\<close> is called inside the call.
\<close>

lemma sl_attach_agrees:
  assumes "\<not> sl_inExitHandler l" and "senderLinkState s = sl_state l"
  shows "sl_state (stateOf (sl_attach fuel (Some c) l)) = senderLinkState (stateOf (senderLink_attach n s))
    \<and> sl_invoked (stateOf (sl_attach fuel (Some c) l))
        = sl_invoked l @ (if sl_state l = Attached then [SlInvoke c None] else [])"
  using assms
  by (cases "sl_state l")
     (auto simp: sl_attach_def senderLink_attach_def senderAttachOk_def cbs_transition_attached_def
        cbs_call_def cbs_emit_def sl_transition_attaching_def sl_onExit_def attaching_onEnter_def
        sl_emit_def sl_call_def sl_invoked_def isInvoke_def Let_def split: option.splits)

lemma sl_send_agrees:
  assumes "\<not> sl_inExitHandler l" and "senderLinkState s = sl_state l"
  shows "sl_state (stateOf (sl_send fuel m cb l)) = senderLinkState (senderLink_send msg s)"
  using assms
  by (cases "sl_state l")
     (auto simp: sl_send_def senderLink_send_def cbs_emit_def sl_transition_attaching_def
        sl_onExit_def attaching_onEnter_def sl_emit_def pushToQueue_def attached_send_def Let_def
        split: option.splits)

lemma sl_detach_agrees:
  assumes "\<not> sl_inExitHandler l" and "sl_inputQueue l = []" and "sl_messageQueue l = []"
    and "(sl_linkObject l \<noteq> None) = (sl_state l = Attached)"
    and "senderLinkState s = sl_state l"
  shows "thrownBy (sl_detach (Suc fuel) l) = thrownBy (senderLink_detach s)
    \<and> sl_state (stateOf (sl_detach (Suc fuel) l)) = senderLinkState (stateOf (senderLink_detach s))"
  using assms
  by (cases "sl_state l"; cases "sl_linkObject l")
     (auto simp: sl_detach_def senderLink_detach_def cbs_emit_def sl_transition_detaching_def
        sl_onExit_def detachLink_def sl_emit_def detached_onEnter_def Let_def)

lemma rl_attach_agrees:
  assumes "\<not> rl_inExitHandler l" and "rl_inputQueue l = []" and "receiverLinkState s = rl_state l"
  shows "rl_state (stateOf (rl_attach (Suc fuel) (Some c) l))
        = receiverLinkState (stateOf (receiverLink_attach n s))
    \<and> rl_effects (stateOf (rl_attach (Suc fuel) (Some c) l))
        = rl_effects l @ (if rl_state l = Attached then [RlInvoke c None None]
                          else if rl_state l = Detached then [RlClientOnErrorReceived, CreateReceiver]
                          else [])"
  using assms
  by (cases "rl_state l")
     (auto simp: rl_attach_def receiverLink_attach_def receiverAttachOk_def cbs_transition_attached_def
        cbs_call_def cbs_emit_def rl_onExit_def rl_onEnter_def rl_emit_def rl_call_def rl_defer_def
        Let_def split: option.splits)

lemma rl_detach_agrees:
  assumes "\<not> rl_inExitHandler l" and "rl_inputQueue l = []"
    and "(rl_linkObject l \<noteq> None) = (rl_state l = Attached)"
    and "receiverLinkState s = rl_state l"
  shows "thrownBy (rl_detach (Suc fuel) l) = thrownBy (receiverLink_detach s)
    \<and> rl_state (stateOf (rl_detach (Suc fuel) l)) = receiverLinkState (stateOf (receiverLink_detach s))"
  using assms
  by (cases "rl_state l"; cases "rl_linkObject l")
     (auto simp: rl_detach_def receiverLink_detach_def cbs_emit_def rl_defer_def
        rl_onExit_def rl_onEnter_def rl_detachLink_def rl_emit_def Let_def)

text \<open>
  An attach of the agent that fails. When the sender link reports an error while the receiver
  link is still attaching, and when the receiver link reports an error, one of the two calls
  of \<open>detach()\<close> throws: the agent stays in \<open>detaching\<close> and the callback of its \<open>attach\<close> is
  not called. When the sender link reports an error after the receiver link has attached, the
  receiver link is detached, the agent reaches \<open>detached\<close> and calls the callback with the
  error.
\<close>

lemma cbs_failed_attach:
  "senderAttachDone 1 0 (Some (AmqpError 4)) (stateOf (cbs_attach 1 (Some 7) cbs_init))
     = Throw TypeError
         \<lparr> cbs_state = Detaching, cbs_attachCallback = Some 7, outstandingPutTokens = [],
           attachRounds = [(False, False)], senderLinkState = Detached,
           receiverLinkState = Detaching, cbs_inputQueue = [],
           cbs_effects = [SenderLinkAttach 0, ReceiverLinkAttach 0, SenderLinkDetach,
                          ReceiverLinkDetach] \<rparr>"
  "receiverAttachDone 1 0 (Some (AmqpError 4)) (stateOf (cbs_attach 1 (Some 7) cbs_init))
     = Throw TypeError
         \<lparr> cbs_state = Detaching, cbs_attachCallback = None, outstandingPutTokens = [],
           attachRounds = [(False, False)], senderLinkState = Detaching,
           receiverLinkState = Detached, cbs_inputQueue = [],
           cbs_effects = [SenderLinkAttach 0, ReceiverLinkAttach 0, SenderLinkDetach] \<rparr>"
  "andThen (receiverAttachDone 1 0 None (stateOf (cbs_attach 1 (Some 7) cbs_init)))
       (senderAttachDone 1 0 (Some (AmqpError 4)))
     = Normal
         \<lparr> cbs_state = Detached, cbs_attachCallback = None, outstandingPutTokens = [],
           attachRounds = [(False, True)], senderLinkState = Detached,
           receiverLinkState = Detached, cbs_inputQueue = [],
           cbs_effects = [SenderLinkAttach 0, ReceiverLinkAttach 0, ReceiverLinkOnMessage,
                          SenderLinkDetach, ReceiverLinkDetach, CbsInvoke 7 (Some (AmqpError 4))] \<rparr>"
  by (simp_all add: cbs_defs Let_def)

subsection \<open>The bound on nested transitions\<close>

text \<open>The agent replays deferred inputs on entering \<open>detached\<close>. It enters \<open>detached\<close> after
  the two calls of \<open>detach()\<close> have returned, so neither link is \<open>attached\<close> then, and no
  replayed input gets the agent to \<open>attached\<close>, the only state with a handler that transitions
  into \<open>detached\<close>: the transition does not depend on the bound, and a bound of one is
  enough.\<close>

lemma cbs_handle_links_down:
  assumes "links_down s"
  shows "cbs_handle fuel inp s = cbs_handle 0 inp s \<and> links_down (stateOf (cbs_handle 0 inp s))"
  using assms
  by (cases "cbs_state s"; cases inp; cases "senderLinkState s"; cases "receiverLinkState s")
     (auto simp: links_down_def cbs_transition_attaching_def senderLink_attach_def
        receiverLink_attach_def senderAttachOk_def receiverAttachOk_def cbs_emit_def Let_def)

lemma cbs_replay_links_down:
  "links_down s \<Longrightarrow>
   cbs_replay fuel inps s = cbs_replay 0 inps s \<and> links_down (stateOf (cbs_replay 0 inps s))"
proof (induction inps arbitrary: s)
  case Nil
  then show ?case by simp
next
  case (Cons inp inps)
  from cbs_handle_links_down[OF Cons.prems, of fuel inp]
  have h: "cbs_handle fuel inp s = cbs_handle 0 inp s"
    and u: "links_down (stateOf (cbs_handle 0 inp s))"
    by simp_all
  show ?case
  proof (cases "cbs_handle 0 inp s")
    case (Normal s1)
    with h u Cons.IH[of s1] show ?thesis by simp
  next
    case (Throw e s1)
    with h u show ?thesis by simp
  qed
qed

lemma cbs_transition_detached_fuel:
  assumes "\<not> (senderLinkState s = Attached \<and> receiverLinkState s = Attached)"
  shows "cbs_transition_detached (Suc fuel) s = cbs_transition_detached (Suc 0) s"
proof -
  have "links_down (s\<lparr> cbs_state := Detached, cbs_inputQueue := [] \<rparr>)"
    using assms by (simp add: links_down_def)
  from cbs_replay_links_down[OF this, of fuel "cbs_inputQueue s"]
       cbs_replay_links_down[OF this, of 0 "cbs_inputQueue s"]
  show ?thesis by simp
qed

lemma cbs_transition_detaching_fuel:
  "cbs_transition_detaching (Suc fuel) s = cbs_transition_detaching (Suc 0) s"
proof (cases "cbs_state s = Detaching")
  case True
  then show ?thesis by simp
next
  case False
  show ?thesis
  proof (cases "andThen (senderLink_detach (s\<lparr> cbs_state := Detaching \<rparr>)) receiverLink_detach")
    case (Throw e s1)
    with False show ?thesis by simp
  next
    case (Normal s1)
    then have "\<not> (senderLinkState s1 = Attached \<and> receiverLinkState s1 = Attached)"
      by (cases "senderLinkState s"; cases "receiverLinkState s")
         (auto simp: senderLink_detach_def receiverLink_detach_def cbs_emit_def Let_def)
    from cbs_transition_detached_fuel[OF this, of fuel] Normal False show ?thesis by simp
  qed
qed

subsection \<open>The public \<open>detach\<close>\<close>

lemma cbs_attach_when_attached:
  "cbs_state s = Attached \<Longrightarrow> cbs_attach fuel (Some cb) s = Normal (cbs_emit (CbsInvoke cb None) s)"
  by (simp add: cbs_attach_def cbs_call_def)

lemma cbs_handle_detach_when_attached:
  "cbs_state s = Attached \<Longrightarrow> cbs_inputQueue s = [] \<Longrightarrow>
   senderLinkState s = Attached \<Longrightarrow> receiverLinkState s = Attached \<Longrightarrow>
   cbs_handle (Suc fuel) (CbsDetach cb) s =
     Normal (s\<lparr> cbs_state := Detached, senderLinkState := Detached, receiverLinkState := Detached,
               cbs_effects := cbs_effects s @ [SenderLinkDetach, ReceiverLinkDetach] \<rparr>)"
  by (simp add: senderLink_detach_def receiverLink_detach_def cbs_emit_def Let_def)

text \<open>
  Claim C3, at an agent whose attach has completed: the public \<open>detach\<close> hands the input
  \<open>attach\<close> to the state machine, so the agent calls the callback and stays \<open>Attached\<close>, and
  neither link is detached. The input \<open>detach\<close>, which no public method sends, is the one that
  detaches both links and reaches \<open>Detached\<close>.
\<close>

theorem cbs_detach_stays_attached:
  "cbs_detach fuel (Some 8) cbs_attached_example
     = Normal (cbs_attached_example\<lparr> cbs_effects := cbs_effects cbs_attached_example @ [CbsInvoke 8 None] \<rparr>)
   \<and> cbs_state (stateOf (cbs_detach fuel (Some 8) cbs_attached_example)) = Attached
   \<and> cbs_handle (Suc fuel) (CbsDetach (Some 8)) cbs_attached_example
     = Normal (cbs_attached_example\<lparr> cbs_state := Detached,
         senderLinkState := Detached, receiverLinkState := Detached,
         cbs_effects := cbs_effects cbs_attached_example @ [SenderLinkDetach, ReceiverLinkDetach] \<rparr>)"
  by (simp add: cbs_detach_def cbs_call_def cbs_emit_def cbs_attached_example_eq
      senderLink_detach_def receiverLink_detach_def Let_def)


section \<open>Properties of the SenderLink\<close>

lemmas sl_defs = sl_init_def sl_send_def sl_detach_def sl_attach_def pushToQueue_def
  sl_transition_attaching_def sl_onExit_def attaching_onEnter_def sl_emit_def
  sl_transition_detaching_def detachLink_def createSenderResolved_def createSenderRejected_def
  attachLinkDone_def sl_transition_attached_def attached_onEnter_def attached_send_def
  sendSettled_def safeCallback_def runTick_def sl_call_def detached_onEnter_def
  linkDetached_def detachHandler_def

lemma sl_attached_example_eq:
  "sl_attached_example =
     \<lparr> sl_state = Attached, sl_linkObject = Some 0, sl_messageQueue = [],
       sl_attachError = None, sl_attachCallback = None, sl_inputQueue = [],
       sl_inExitHandler = False, sl_detachedListeners = [0], sl_pendingCreate = 0,
       sl_pendingSends = [], sl_ticks = [],
       sl_effects = [ClientOnErrorReceived, CreateSender, LinkOnDetached 0,
                     LinkOnErrorReceived 0, ClientRemoveErrorListener, SlInvoke 10 None] \<rparr>"
  by (simp add: sl_attached_example_def sl_defs Let_def)

lemma sl_queued_example_eq:
  "sl_queued_example =
     \<lparr> sl_state = Attaching, sl_linkObject = None,
       sl_messageQueue = [(1, Some 11), (2, Some 12)],
       sl_attachError = None, sl_attachCallback = Some 10, sl_inputQueue = [],
       sl_inExitHandler = False, sl_detachedListeners = [], sl_pendingCreate = 1,
       sl_pendingSends = [], sl_ticks = [],
       sl_effects = [ClientOnErrorReceived, CreateSender] \<rparr>"
  by (simp add: sl_queued_example_def sl_defs Let_def)

subsection \<open>A send whose callback is never called\<close>

text \<open>
  Claim C1, at the run \<open>send(m1, c11)\<close>, \<open>detach()\<close>, \<open>send(m2, c12)\<close>, then \<open>createSender\<close>
  fulfilled, the link's send settled and the scheduled callback run. \<open>detach\<close> in \<open>attaching\<close>
  transitions to \<open>detaching\<close> and then calls \<open>forceDetach\<close> on a link object that does not
  exist yet: a \<open>TypeError\<close>, which leaves the machine in \<open>detaching\<close>. The second send is
  deferred there until \<open>detached\<close>; the attach then completes and the machine goes to
  \<open>attached\<close>, where the first request is sent and its callback called once. Nothing is
  pending any more, and the callback of the second send has not been called: its request
  waits in machina's queue for a transition to \<open>detached\<close>.
\<close>

theorem sender_link_deferred_send_not_completed:
  "sl_run fuel [CallSend 1 (Some 11), CallDetach, CallSend 2 (Some 12),
                CreateSenderResolved 0 None, SendSettled 0 None, RunTick] (sl_init, [])
   = (\<lparr> sl_state = Attached, sl_linkObject = Some 0, sl_messageQueue = [],
        sl_attachError = None, sl_attachCallback = None,
        sl_inputQueue = [SlSend 2 (Some 12)], sl_inExitHandler = False,
        sl_detachedListeners = [0], sl_pendingCreate = 0, sl_pendingSends = [],
        sl_ticks = [],
        sl_effects = [ClientOnErrorReceived, CreateSender, LinkOnDetached 0,
          LinkOnErrorReceived 0, ClientRemoveErrorListener, LinkSend 0 1,
          ProcessNextTick 11 None, SlInvoke 11 None] \<rparr>, [TypeError])"
  by (simp add: sl_defs Let_def)

subsection \<open>The bound on nested transitions\<close>

text \<open>
  The source transitions into \<open>detached\<close> after a failed attach, which stored no link
  object, or after \<open>_detachLink\<close> or \<open>_detachHandler\<close> has emptied the field: the object
  holds no link object then. In that case no replayed input transitions into \<open>detached\<close>
  again (a replayed \<open>detach\<close> is either ignored or stopped by the \<open>TypeError\<close> of
  \<open>_detachLink\<close>), so the result does not depend on the bound, and a bound of one is enough.
\<close>

lemma sl_handle_unlinked:
  assumes "sl_unlinked s"
  shows "sl_handle fuel inp s = sl_handle 0 inp s \<and> sl_unlinked (stateOf (sl_handle 0 inp s))"
  using assms
  by (cases "sl_state s"; cases inp)
     (auto simp: sl_unlinked_def sl_transition_attaching_def sl_onExit_def attaching_onEnter_def
        sl_emit_def pushToQueue_def sl_transition_detaching_def detachLink_def)

lemma sl_replay_unlinked:
  "sl_unlinked s \<Longrightarrow>
   sl_replay fuel inps s = sl_replay 0 inps s \<and> sl_unlinked (stateOf (sl_replay 0 inps s))"
proof (induction inps arbitrary: s)
  case Nil
  then show ?case by simp
next
  case (Cons inp inps)
  from sl_handle_unlinked[OF Cons.prems, of fuel inp]
  have h: "sl_handle fuel inp s = sl_handle 0 inp s" and u: "sl_unlinked (stateOf (sl_handle 0 inp s))"
    by simp_all
  show ?case
  proof (cases "sl_handle 0 inp s")
    case (Normal s1)
    with h u Cons.IH[of s1] show ?thesis by simp
  next
    case (Throw e s1)
    with h u show ?thesis by simp
  qed
qed

lemma failQueue_loop_keeps:
  "sl_linkObject (stateOf (failQueue_loop e q s)) = sl_linkObject s
   \<and> sl_state (stateOf (failQueue_loop e q s)) = sl_state s"
proof (induction q arbitrary: s)
  case Nil
  show ?case by simp
next
  case (Cons r q)
  show ?case
  proof (cases "snd r")
    case None
    then show ?thesis by (simp add: sl_call_def)
  next
    case (Some c)
    then show ?thesis
      using Cons[of "sl_emit (SlInvoke c (Some e)) (s\<lparr> sl_messageQueue := q \<rparr>)"]
      by (simp add: sl_call_def sl_emit_def)
  qed
qed

lemma detached_onEnter_keeps:
  "sl_linkObject (stateOf (detached_onEnter s)) = sl_linkObject s
   \<and> sl_state (stateOf (detached_onEnter s)) = sl_state s"
  by (simp add: detached_onEnter_def failQueue_loop_keeps)

lemma sl_transition_detached_fuel:
  assumes "sl_linkObject s = None"
  shows "sl_transition_detached (Suc fuel) s = sl_transition_detached (Suc 0) s"
proof (cases "sl_inExitHandler s \<or> sl_state s = Detached")
  case True
  then show ?thesis by auto
next
  case False
  show ?thesis
  proof (cases "sl_onExit s")
    case (Throw e s1)
    with False show ?thesis by simp
  next
    case (Normal s1)
    with assms have s1: "s1 = s" by (auto simp: sl_onExit_def split: if_splits)
    show ?thesis
    proof (cases "detached_onEnter (s\<lparr> sl_state := Detached \<rparr>)")
      case (Throw e s2)
      with False Normal s1 show ?thesis by simp
    next
      case n2: (Normal s2)
      have keep: "sl_linkObject s2 = sl_linkObject s \<and> sl_state s2 = Detached"
        using detached_onEnter_keeps[of "s\<lparr> sl_state := Detached \<rparr>"] n2 by simp
      then have "sl_unlinked (s2\<lparr> sl_inputQueue := [] \<rparr>)" using assms by (simp add: sl_unlinked_def)
      from sl_replay_unlinked[OF this] False Normal s1 n2 show ?thesis by simp
    qed
  qed
qed

subsection \<open>Entering \<open>detached\<close>\<close>

lemma failQueue_loop_all:
  "\<forall>r \<in> set q. snd r \<noteq> None \<Longrightarrow>
   failQueue_loop e q s =
     Normal (s\<lparr> sl_messageQueue := (if q = [] then sl_messageQueue s else []),
               sl_effects := sl_effects s @ map (\<lambda>r. SlInvoke (the (snd r)) (Some e)) q \<rparr>)"
  by (induction q arbitrary: s) (auto simp: sl_call_def sl_emit_def)

lemma detached_onEnter_all:
  assumes "sl_messageQueue s \<noteq> []" and "\<forall>r \<in> set (sl_messageQueue s). snd r \<noteq> None"
  shows "detached_onEnter s =
     Normal (s\<lparr> sl_messageQueue := [],
               sl_effects := sl_effects s @
                 map (\<lambda>r. SlInvoke (the (snd r))
                        (Some (case sl_attachError s of Some e \<Rightarrow> e | None \<Rightarrow> Error ''Link Detached'')))
                   (sl_messageQueue s) \<rparr>)"
  using assms failQueue_loop_all[OF assms(2)]
  by (simp add: detached_onEnter_def)

text \<open>
  When a sender link whose queue is not empty, every queued request carrying a callback,
  enters \<open>detached\<close>, the entry action calls the callback of every queued request, in the
  order of the queue, with the stored attach error when there is one and with the error
  \<open>Link Detached\<close> otherwise, and leaves the queue empty. Every transition into \<open>detached\<close>
  does this, after the exit action of the state it leaves and before it replays the deferred
  inputs.
\<close>

lemma detached_onEnter_with_callbacks:
  assumes "sl_messageQueue s \<noteq> []" and "\<forall>r \<in> set (sl_messageQueue s). snd r \<noteq> None"
  shows "detached_onEnter s =
           Normal (s\<lparr> sl_messageQueue := [],
             sl_effects := sl_effects s @
               map (\<lambda>r. SlInvoke (the (snd r))
                      (Some (case sl_attachError s of Some e \<Rightarrow> e | None \<Rightarrow> Error ''Link Detached'')))
                 (sl_messageQueue s) \<rparr>)
       \<and> (sl_state s \<noteq> Detached \<and> \<not> sl_inExitHandler s \<longrightarrow>
            (\<forall>s1. sl_onExit s = Normal s1 \<longrightarrow>
               sl_transition_detached (Suc fuel) s =
                 sl_replay fuel (sl_inputQueue s)
                   (s1\<lparr> sl_state := Detached, sl_messageQueue := [],
                       sl_effects := sl_effects s1 @
                         map (\<lambda>r. SlInvoke (the (snd r))
                                (Some (case sl_attachError s of Some e \<Rightarrow> e
                                       | None \<Rightarrow> Error ''Link Detached'')))
                           (sl_messageQueue s),
                       sl_inputQueue := [] \<rparr>)))"
proof -
  have exit_keeps: "sl_messageQueue s1 = sl_messageQueue s \<and> sl_attachError s1 = sl_attachError s
      \<and> sl_inputQueue s1 = sl_inputQueue s" if "sl_onExit s = Normal s1" for s1
    using that by (auto simp: sl_onExit_def sl_emit_def split: if_splits option.splits)
  have enter: "detached_onEnter (s1\<lparr> sl_state := Detached \<rparr>) =
      Normal (s1\<lparr> sl_state := Detached, sl_messageQueue := [],
        sl_effects := sl_effects s1 @
          map (\<lambda>r. SlInvoke (the (snd r))
                 (Some (case sl_attachError s of Some e \<Rightarrow> e | None \<Rightarrow> Error ''Link Detached'')))
            (sl_messageQueue s) \<rparr>)" if "sl_onExit s = Normal s1" for s1
    using detached_onEnter_all[of "s1\<lparr> sl_state := Detached \<rparr>"] exit_keeps[OF that] assms
    by simp
  show ?thesis
    using detached_onEnter_all[OF assms] enter exit_keeps
    by auto
qed

lemma detached_onEnter_with_callbacks_example:
  "sl_transition_detached (Suc 0) (sl_queued_example\<lparr> sl_attachError := Some (AmqpError 5) \<rparr>)
     = Normal (sl_queued_example\<lparr> sl_attachError := Some (AmqpError 5), sl_state := Detached,
         sl_messageQueue := [],
         sl_effects := sl_effects sl_queued_example @
           [SlInvoke 11 (Some (AmqpError 5)), SlInvoke 12 (Some (AmqpError 5))] \<rparr>)"
proof -
  let ?s = "sl_queued_example\<lparr> sl_attachError := Some (AmqpError 5) \<rparr>"
  have q: "sl_messageQueue ?s \<noteq> []" and c: "\<forall>r \<in> set (sl_messageQueue ?s). snd r \<noteq> None"
    by (simp_all add: sl_queued_example_eq)
  from detached_onEnter_with_callbacks[OF q c, of 0]
  show ?thesis by (simp add: sl_queued_example_eq sl_onExit_def)
qed

text \<open>
  Claim C6, at the run \<open>send(m1)\<close> without a callback, \<open>send(m2, c12)\<close>, then \<open>createSender\<close>
  rejected: the requirement comment in \<open>attached.send\<close> says that every method treats the
  callback as optional, and \<open>attached.send\<close> calls it through a guard. The first send starts
  the attach and both requests are queued. The rejection stores the attach error and the
  machine enters \<open>detached\<close>, whose entry action shifts the first request off the queue and
  calls its callback, which is \<open>undefined\<close>: a \<open>TypeError\<close>. The link is \<open>Detached\<close> with
  the second request still in its queue, and \<open>c12\<close> has not been called. In the same run
  with a callback \<open>c11\<close> on the first send, both callbacks are called with the attach error,
  in order, and the queue is left empty.
\<close>

theorem detached_onEnter_throws_without_callback:
  "sl_run (Suc fuel) [CallSend 1 None, CallSend 2 (Some 12), CreateSenderRejected (AmqpError 5)]
       (sl_init, [])
   = (\<lparr> sl_state = Detached, sl_linkObject = None, sl_messageQueue = [(2, Some 12)],
        sl_attachError = Some (AmqpError 5), sl_attachCallback = None, sl_inputQueue = [],
        sl_inExitHandler = False, sl_detachedListeners = [], sl_pendingCreate = 0,
        sl_pendingSends = [], sl_ticks = [],
        sl_effects = [ClientOnErrorReceived, CreateSender] \<rparr>, [TypeError])
   \<and> sl_run (Suc fuel) [CallSend 1 (Some 11), CallSend 2 (Some 12),
                          CreateSenderRejected (AmqpError 5)] (sl_init, [])
   = (\<lparr> sl_state = Detached, sl_linkObject = None, sl_messageQueue = [],
        sl_attachError = Some (AmqpError 5), sl_attachCallback = None, sl_inputQueue = [],
        sl_inExitHandler = False, sl_detachedListeners = [], sl_pendingCreate = 0,
        sl_pendingSends = [], sl_ticks = [],
        sl_effects = [ClientOnErrorReceived, CreateSender, SlInvoke 11 (Some (AmqpError 5)),
                      SlInvoke 12 (Some (AmqpError 5))] \<rparr>, [])"
  by (simp add: sl_defs Let_def)

subsection \<open>When callbacks run\<close>

text \<open>
  Claim C9 fails for the attach callback: \<open>attach(c11)\<close> on a link that is \<open>Attached\<close> calls
  \<open>c11\<close> before it returns, and schedules nothing.
\<close>

theorem attach_callback_called_synchronously:
  "sl_state sl_attached_example = Attached
   \<and> sl_attach 1 (Some 11) sl_attached_example
       = Normal (sl_attached_example\<lparr> sl_effects := sl_effects sl_attached_example @ [SlInvoke 11 None] \<rparr>)
   \<and> sl_ticks (stateOf (sl_attach 1 (Some 11) sl_attached_example)) = []"
  by (simp add: sl_attached_example_eq sl_attach_def sl_call_def sl_emit_def)

lemma sl_send_invokes_nothing:
  "sl_invoked (stateOf (sl_send fuel m cb s)) = sl_invoked s"
  by (cases "sl_state s"; cases "sl_linkObject s")
     (simp_all add: sl_defs sl_invoked_def isInvoke_def)

text \<open>
  Claim C9 as amended. A \<open>send\<close> calls no callback before it returns, whatever the state of
  the link. When the link object's send settles, the callback of the request is handed to
  \<open>process.nextTick\<close> and is not called; it is called when that scheduled closure runs.
  An \<open>attach\<close> on a link that is \<open>Detached\<close> stores its callback and calls nothing.
\<close>

theorem send_callback_is_scheduled:
  "sl_invoked (stateOf (sl_send fuel m cb s)) = sl_invoked s
   \<and> sl_invoked (sendSettled i err s) = sl_invoked s
   \<and> (i < length (sl_pendingSends s) \<and> sl_pendingSends s ! i = Some c \<longrightarrow>
        sl_ticks (sendSettled i err s) = sl_ticks s @ [(c, err)])
   \<and> (sl_ticks s = (c, err) # rest \<longrightarrow>
        sl_effects (runTick s) = sl_effects s @ [SlInvoke c err] \<and> sl_ticks (runTick s) = rest)
   \<and> (sl_state s = Detached \<and> \<not> sl_inExitHandler s \<longrightarrow>
        sl_invoked (stateOf (sl_attach fuel (Some c) s)) = sl_invoked s
        \<and> sl_attachCallback (stateOf (sl_attach fuel (Some c) s)) = Some c)"
  using sl_send_invokes_nothing[of fuel m cb s]
  by (auto simp: sl_defs sl_invoked_def isInvoke_def split: option.splits)

theorem send_callback_is_scheduled_witness:
  "sl_invoked (stateOf (sl_send 1 5 (Some 15) sl_attached_example)) = [SlInvoke 10 None]
   \<and> sl_ticks (sendSettled 0 None (stateOf (sl_send 1 5 (Some 15) sl_attached_example))) = [(15, None)]
   \<and> sl_invoked (sendSettled 0 None (stateOf (sl_send 1 5 (Some 15) sl_attached_example))) = [SlInvoke 10 None]
   \<and> sl_invoked (runTick (sendSettled 0 None (stateOf (sl_send 1 5 (Some 15) sl_attached_example))))
       = [SlInvoke 10 None, SlInvoke 15 None]
   \<and> sl_attachCallback (stateOf (sl_attach 1 (Some 10) sl_init)) = Some 10
   \<and> sl_invoked (stateOf (sl_attach 1 (Some 10) sl_init)) = []"
  using send_callback_is_scheduled[of 1 5 "Some 15" sl_attached_example 0 None 15 "[]"]
        send_callback_is_scheduled[of 1 5 "Some 15"
          "sendSettled 0 None (stateOf (sl_send 1 5 (Some 15) sl_attached_example))" 0 None 15 "[]"]
        send_callback_is_scheduled[of 1 5 "Some 15" sl_init 0 None 10 "[]"]
  by (simp add: sl_attached_example_eq sl_defs sl_invoked_def isInvoke_def)

section \<open>Attach on an attached object\<close>

lemma rl_attached_example_eq:
  "rl_attached_example =
     \<lparr> rl_state = Attached, rl_linkObject = Some 7, rl_attachCallback = None,
       rl_inputQueue = [], rl_inExitHandler = False, rl_pendingCreate = 0, rl_ticks = [],
       rl_effects = [RlClientOnErrorReceived, CreateReceiver, RlClientRemoveErrorListener,
                     RlNextTick None, RlLinkOn 7, RlInvoke 3 None None] \<rparr>"
  by (simp add: rl_attached_example_def rl_attach_def rl_init_def rl_onExit_def rl_onEnter_def
      rl_emit_def createReceiverResolved_def rl_runTick_def rl_attachLinkDone_def rl_call_def
      numeral_2_eq_2 Let_def)

text \<open>
  On a \<open>SenderLink\<close>, an \<open>AmqpReceiverLinkFsm\<close> or a \<open>ClaimsBasedSecurityAgent\<close> that is
  \<open>Attached\<close>, and for the two links when the state machine is not stuck inside an exit
  handler, \<open>attach(callback)\<close> calls the callback with no error and does nothing else: the
  record is the same but for that one effect, so the state is still \<open>Attached\<close> and neither
  \<open>createSender\<close> nor \<open>createReceiver\<close> nor an attach of the agent's links is issued.
\<close>

lemma attach_when_attached:
  "(sl_state s = Attached \<and> \<not> sl_inExitHandler s \<longrightarrow>
      sl_attach fuel (Some cb) s = Normal (s\<lparr> sl_effects := sl_effects s @ [SlInvoke cb None] \<rparr>))
   \<and> (rl_state r = Attached \<and> \<not> rl_inExitHandler r \<longrightarrow>
      rl_attach fuel (Some cb) r = Normal (r\<lparr> rl_effects := rl_effects r @ [RlInvoke cb None None] \<rparr>))
   \<and> (cbs_state a = Attached \<longrightarrow>
      cbs_attach fuel (Some cb) a = Normal (a\<lparr> cbs_effects := cbs_effects a @ [CbsInvoke cb None] \<rparr>))"
  by (simp add: sl_attach_def sl_call_def sl_emit_def rl_attach_def rl_call_def rl_emit_def
      cbs_attach_def cbs_call_def cbs_emit_def)

lemma attach_when_attached_example:
  "sl_attach 1 (Some 30) sl_attached_example
     = Normal (sl_attached_example\<lparr> sl_effects := sl_effects sl_attached_example @ [SlInvoke 30 None] \<rparr>)
   \<and> rl_attach 1 (Some 30) rl_attached_example
     = Normal (rl_attached_example\<lparr> rl_effects := rl_effects rl_attached_example @ [RlInvoke 30 None None] \<rparr>)
   \<and> cbs_attach 1 (Some 30) cbs_attached_example
     = Normal (cbs_attached_example\<lparr> cbs_effects := cbs_effects cbs_attached_example @ [CbsInvoke 30 None] \<rparr>)
   \<and> sl_state sl_attached_example = Attached \<and> rl_state rl_attached_example = Attached
   \<and> cbs_state cbs_attached_example = Attached"
  using attach_when_attached[of sl_attached_example 1 30 rl_attached_example cbs_attached_example]
  by (simp add: sl_attached_example_eq rl_attached_example_eq cbs_attached_example_eq)

text \<open>
  Claim C10, at a receiver link whose attach has completed and whose link object then emits
  \<open>detached\<close> (the peer detaches the link). \<open>_detachHandler\<close> empties \<open>_linkObject\<close> and
  then transitions to \<open>detached\<close>; the exit action of \<open>attached\<close> calls \<open>removeListener\<close> on
  the emptied field: a \<open>TypeError\<close> inside machina's exit handler, which leaves the machine
  in \<open>attached\<close> with its \<open>inExitHandler\<close> flag set. From then on \<open>handle\<close> does nothing:
  \<open>attach(c30)\<close> on this link, which is \<open>Attached\<close>, returns without calling \<open>c30\<close>. The
  sender link's \<open>_detachHandler\<close> transitions to \<open>detaching\<close> before it empties the field:
  after the same event the sender link is \<open>Detached\<close>.
\<close>

theorem receiver_attach_ignored_after_peer_detach:
  "rl_state rl_attached_example = Attached
   \<and> rl_linkDetached (Suc fuel) None rl_attached_example
       = Throw TypeError (rl_attached_example\<lparr> rl_linkObject := None, rl_inExitHandler := True \<rparr>)
   \<and> rl_state (rl_attached_example\<lparr> rl_linkObject := None, rl_inExitHandler := True \<rparr>) = Attached
   \<and> rl_attach fuel (Some 30) (rl_attached_example\<lparr> rl_linkObject := None, rl_inExitHandler := True \<rparr>)
       = Normal (rl_attached_example\<lparr> rl_linkObject := None, rl_inExitHandler := True \<rparr>)
   \<and> linkDetached (Suc fuel) 0 sl_attached_example
       = Normal (sl_attached_example\<lparr> sl_state := Detached, sl_linkObject := None,
           sl_detachedListeners := [],
           sl_effects := sl_effects sl_attached_example @ [LinkRemoveDetachedListener 0] \<rparr>)"
  by (simp add: rl_attached_example_eq sl_attached_example_eq rl_linkDetached_def
      rl_detachHandler_def rl_onExit_def rl_attach_def sl_defs Let_def)


section \<open>Properties of the twin client\<close>

subsection \<open>The request encoding\<close>








subsection \<open>The two links\<close>

lemmas tw_defs = twin_example_env_def tw_init_def tw_on_def tw_handle_def tw_defer_def
  tw_transition_connecting_def tw_transition_disconnected_def tw_transition_disconnecting_def
  tw_transition_connected_def tw_onExit_def tw_emit_def countListener_def listenerCount_def
  receiverAttached_def senderAttached_def handleError_def onAmqpDetached_def senderDetached_def
  sendTwinRequest_def sendTwinRequest_impl_def tw_removeListener_def

lemma tw_connected_example_eq:
  "tw_connected_example =
     \<lparr> tw_state = Connected, tw_upstreamAmqpLink = Some 2, tw_downstreamAmqpLink = Some 1,
       tw_internalOperations = [], tw_inputQueue = [],
       tw_listeners = [(''error'', 1), (''response'', 1)], tw_channelCorrelationId = ''twin:u'',
       tw_effects = [TwTransition Disconnected Connecting, AttachReceiverLink ''twin:u'',
                     DownstreamOnDetached 1, AttachSenderLink ''twin:u'',
                     TwTransition Connecting Connected, DownstreamOnMessage 1,
                     TwEmitSubscribed ''response''],
       tw_uuids = 1, tw_pendingReceiverAttach = 0, tw_pendingSenderAttach = 0,
       tw_pendingSenderDetach = 0 \<rparr>"
  by (simp add: tw_connected_example_def tw_defs Let_def)

text \<open>The receiver link object emits \<open>detached\<close> while the client is \<open>connected\<close>: the
  machine goes through \<open>disconnecting\<close>, where it asks for the detach of the sender link, and
  on to \<open>disconnected\<close>; when that detach has completed, with or without an error, the client
  asks for the detach of the receiver link it holds.\<close>

lemma downstream_detach_when_connected:
  assumes "tw_state s = Connected" and "tw_downstreamAmqpLink s = Some l"
  shows "\<exists>s' rest. onAmqpDetached env s = Normal s'
     \<and> tw_effects s' = tw_effects s @ [DownstreamOffMessage l, TwTransition Connected Disconnecting,
          DetachSenderLink, TwTransition Disconnecting Disconnected] @ rest
     \<and> tw_pendingSenderDetach s' = Suc (tw_pendingSenderDetach s)
     \<and> tw_downstreamAmqpLink s' = Some l
     \<and> tw_effects (senderDetached err s') = tw_effects s' @ [DetachReceiverLink (Some l)]"
  using assms
  by (simp add: onAmqpDetached_def tw_handle_def tw_transition_disconnecting_def
      tw_transition_disconnected_def tw_transition_connecting_def tw_onExit_def tw_emit_def
      senderDetached_def Let_def)


subsection \<open>Validation of a request\<close>

lemma sendTwinRequest_when_connected:
  "tw_state s = Connected \<Longrightarrow> buildTwinRequest env method resource properties body = Inl e \<Longrightarrow>
   sendTwinRequest env method resource properties body done s = Throw e s"
  by (simp add: sendTwinRequest_def tw_handle_def sendTwinRequest_impl_def)

text \<open>
  Claim C8, at a client that is \<open>Disconnected\<close> (its initial state). A request with an
  \<open>undefined\<close> method is one \<open>_sendTwinRequest\<close> rejects with a \<open>ReferenceError\<close>, and a request
  whose method is the number 5 one it rejects with an \<open>ArgumentError\<close>. The public
  \<open>sendTwinRequest\<close> throws neither: it defers the request and starts connecting. The
  \<open>ReferenceError\<close> is thrown later, inside the callback of the sender link's attach, when
  the machine enters \<open>connected\<close> and replays the request. Only a client that is \<open>Connected\<close>
  throws it to the caller.
\<close>

theorem sendTwinRequest_not_validated_when_disconnected:
  "buildTwinRequest twin_example_env JUndefined (JStr ''/properties/reported/'') (JObject [])
       (JStr ''{}'') = Inl (ReferenceError ''required parameter is missing'')
   \<and> sendTwinRequest twin_example_env JUndefined (JStr ''/properties/reported/'') (JObject [])
       (JStr ''{}'') None tw_init
     = Normal (tw_init\<lparr> tw_state := Connecting,
         tw_inputQueue := [SendTwinRequest JUndefined (JStr ''/properties/reported/'') (JObject [])
                             (JStr ''{}'') None],
         tw_channelCorrelationId := ''twin:u'',
         tw_effects := [TwTransition Disconnected Connecting, AttachReceiverLink ''twin:u''],
         tw_uuids := 1, tw_pendingReceiverAttach := 1 \<rparr>)
   \<and> buildTwinRequest twin_example_env (JNum 5) (JStr ''/properties/reported/'') (JObject [])
       (JStr ''{}'') = Inl (ArgumentError ''required string parameter is not a string'')
   \<and> thrownBy (sendTwinRequest twin_example_env (JNum 5) (JStr ''/properties/reported/'')
       (JObject []) (JStr ''{}'') None tw_init) = None
   \<and> thrownBy (tw_step twin_example_env (SenderAttached None 2)
       (tw_run twin_example_env
          [CallSendTwinRequest JUndefined (JStr ''/properties/reported/'') (JObject []) (JStr ''{}'') None,
           ReceiverAttached None 1] tw_init))
     = Some (ReferenceError ''required parameter is missing'')
   \<and> thrownBy (sendTwinRequest twin_example_env JUndefined (JStr ''/properties/reported/'')
       (JObject []) (JStr ''{}'') None tw_connected_example)
     = Some (ReferenceError ''required parameter is missing'')"
  by (simp add: tw_connected_example_eq buildTwinRequest_def sendTwinRequest_def tw_handle_def
      sendTwinRequest_impl_def twin_example_env_def tw_init_def tw_defer_def
      tw_transition_connecting_def tw_transition_connected_def tw_onExit_def tw_emit_def
      receiverAttached_def senderAttached_def Let_def)

end
